theory Spec2Isabelle
  imports Main "HOL-Library.Word"
begin

section \<open>Common data of the protocol handler\<close>

text \<open>
  Block numbers, amounts and skips are Go \<open>uint64\<close> values: 64-bit words whose
  arithmetic wraps around. A hash is 32 bytes; the all-zero hash is the zero word.
  Arbitrary-precision integers (\<open>*big.Int\<close>) are \<open>int\<close>; where the source can
  hold a nil pointer the model has an \<open>option\<close>.
\<close>

type_synonym hash = "256 word"
type_synonym uint64 = "64 word"

text \<open>The header fields the handler reads. \<open>hdrHash\<close> stands for \<open>header.Hash()\<close>.\<close>

record header =
  hdrNumber :: int
  hdrParentHash :: hash
  hdrHash :: hash
  hdrReceiptHash :: hash
  hdrExtra :: "8 word list"

text \<open>
  The block fields the handler reads (\<open>block.Hash()\<close>, \<open>ParentHash()\<close>,
  \<open>NumberU64()\<close>, \<open>Difficulty()\<close>) and the two it writes on receipt.
\<close>

record block =
  blkHash :: hash
  blkParentHash :: hash
  blkNumberU64 :: uint64
  blkDifficulty :: int
  ReceivedAt :: nat
  ReceivedFrom :: "string option"

record transaction =
  txHash :: hash
  txPayload :: nat

text \<open>\<open>big.Int.Uint64\<close>: the low 64 bits of the absolute value.\<close>

definition Uint64 :: "int \<Rightarrow> uint64" where
  "Uint64 x = word_of_int \<bar>x\<bar>"

text \<open>
  The local chain, as the handler consults it. Each field is one lookup method of
  \<open>core.BlockChain\<close>; a nil result is \<open>None\<close>.
\<close>

record blockchain =
  GetHeaderByHash :: "hash \<Rightarrow> header option"
  GetHeaderByNumber :: "uint64 \<Rightarrow> header option"
  GetHeader :: "hash \<Rightarrow> uint64 \<Rightarrow> header option"
  GetBlockHashesFromHash :: "hash \<Rightarrow> uint64 \<Rightarrow> hash list"
  GetTd :: "hash \<Rightarrow> uint64 \<Rightarrow> int option"
  GetBlock :: "hash \<Rightarrow> uint64 \<Rightarrow> block option"
  HasBlock :: "hash \<Rightarrow> uint64 \<Rightarrow> bool"
  CurrentBlock :: block
  GetBodyRLP :: "hash \<Rightarrow> 8 word list"
  TrieNode :: "hash \<Rightarrow> 8 word list option"
  GetReceiptsByHash :: "hash \<Rightarrow> nat list option"

text \<open>A call either returns a value or ends in a Go runtime panic.\<close>

datatype 'a outcome = Done 'a | Panic

definition softResponseLimit :: nat where
  "softResponseLimit = 2 * 1024 * 1024"

definition estHeaderRlpSize :: nat where
  "estHeaderRlpSize = 500"

section \<open>GetBlockHeaders: gathering the reply\<close>

record getBlockHeadersData =
  OriginHash :: hash
  OriginNumber :: uint64
  Amount :: uint64
  Skip :: uint64
  Reverse :: bool

text \<open>What the handler writes to the log while it gathers headers.\<close>

datatype log_event =
  SkipOverflowAttack uint64 uint64 uint64
| PropagatingDanglingBlock uint64 hash

text \<open>
  The inner loop of the hash-based traversal towards genesis:
  \<open>for i := 0; i < int(query.Skip)+1; i++\<close>. The first argument is the number of
  iterations left; the result is the new origin hash and the \<open>unknown\<close> flag.
\<close>

fun walkToGenesis :: "blockchain \<Rightarrow> nat \<Rightarrow> hash \<Rightarrow> uint64 \<Rightarrow> hash \<times> bool" where
  "walkToGenesis bc 0 h number = (h, False)"
| "walkToGenesis bc (Suc i) h number =
     (case GetHeader bc h number of
        Some header \<Rightarrow> walkToGenesis bc i (hdrParentHash header) (number - 1)
      | None \<Rightarrow> (h, True))"

text \<open>
  The \<open>switch\<close> that advances the query to the next header. It returns the updated
  query, the \<open>unknown\<close> flag and the log. Indexing the ancestor list out of range
  panics.
\<close>

definition advanceQuery ::
  "blockchain \<Rightarrow> getBlockHeadersData \<Rightarrow> header \<Rightarrow> log_event list
    \<Rightarrow> (getBlockHeadersData \<times> bool \<times> log_event list) outcome" where
  "advanceQuery bc query origin logs =
     (let number = Uint64 (hdrNumber origin) in
      if OriginHash query \<noteq> 0 \<and> Reverse query then
        (case walkToGenesis bc (nat (sint (Skip query + 1))) (OriginHash query) number of
           (h, unknown) \<Rightarrow> Done (query\<lparr>OriginHash := h\<rparr>, unknown, logs))
      else if OriginHash query \<noteq> 0 \<and> \<not> Reverse query then
        (let current = number; next = current + Skip query + 1 in
         if next \<le> current then
           Done (query, True, logs @ [SkipOverflowAttack current (Skip query) next])
         else
           (case GetHeaderByNumber bc next of
              Some header \<Rightarrow>
                (let hashes = GetBlockHashesFromHash bc (hdrHash header) (Skip query + 1) in
                 if unat (Skip query) < length hashes then
                   (if hashes ! unat (Skip query) = OriginHash query
                    then Done (query\<lparr>OriginHash := hdrHash header\<rparr>, False, logs)
                    else Done (query, True, logs))
                 else Panic)
            | None \<Rightarrow> Done (query, True, logs)))
      else if Reverse query then
        (if OriginNumber query \<ge> Skip query + 1
         then Done (query\<lparr>OriginNumber := OriginNumber query - (Skip query + 1)\<rparr>, False, logs)
         else Done (query, True, logs))
      else
        Done (query\<lparr>OriginNumber := OriginNumber query + (Skip query + 1)\<rparr>, False, logs))"

text \<open>
  The gathering loop. \<open>maxHeaderFetch\<close> is \<open>downloader.MaxHeaderFetch\<close>, a Go
  \<open>int\<close>; \<open>int(query.Amount)\<close> is the signed reading of the 64-bit amount.
  \<open>bytes\<close> only ever holds multiples of 500 below 2 MiB + 500, which its
  floating-point type represents exactly.
\<close>

function gatherHeaders ::
  "blockchain \<Rightarrow> int \<Rightarrow> bool \<Rightarrow> getBlockHeadersData \<Rightarrow> nat \<Rightarrow> header list \<Rightarrow> bool
    \<Rightarrow> log_event list \<Rightarrow> (header list \<times> log_event list) outcome" where
  "gatherHeaders bc maxHeaderFetch hashMode query bytes headers unknown logs =
     (if \<not> unknown \<and> int (length headers) < sint (Amount query) \<and> bytes < softResponseLimit
         \<and> int (length headers) < maxHeaderFetch then
        (case (if hashMode then GetHeaderByHash bc (OriginHash query)
               else GetHeaderByNumber bc (OriginNumber query)) of
           None \<Rightarrow> Done (headers, logs)
         | Some origin \<Rightarrow>
             (case advanceQuery bc query origin logs of
                Panic \<Rightarrow> Panic
              | Done (query', unknown', logs') \<Rightarrow>
                  gatherHeaders bc maxHeaderFetch hashMode query' (bytes + estHeaderRlpSize)
                    (headers @ [origin]) unknown' logs'))
      else Done (headers, logs))"
  by pat_completeness auto
termination
  by (relation "measure (\<lambda>(bc, m, hm, q, b, hs, u, l). nat (m - int (length hs)))") auto

declare gatherHeaders.simps [simp del]

text \<open>The headers the handler passes to \<open>SendBlockHeaders\<close> for a decoded query.\<close>

definition answerGetBlockHeaders ::
  "blockchain \<Rightarrow> int \<Rightarrow> getBlockHeadersData \<Rightarrow> (header list \<times> log_event list) outcome" where
  "answerGetBlockHeaders bc maxHeaderFetch query =
     gatherHeaders bc maxHeaderFetch (OriginHash query \<noteq> 0) query 0 [] False []"

section \<open>Errors, peers and the protocol manager\<close>

datatype errCode =
  ErrMsgTooLarge | ErrDecode | ErrInvalidMsgCode | ErrExtraStatusMsg | ErrVerify

text \<open>
  \<open>ErrResp c\<close> is \<open>errResp(c, ...)\<close>; \<open>External s\<close> is an error handed over by a
  collaborator (the connection, the consensus rules, the RLP stream).
\<close>

datatype error = ErrResp errCode | External string

text \<open>What a peer writes to its connection.\<close>

datatype wire_msg =
  BlockHeadersReply "header list"
| BlockBodiesRLPReply "8 word list list"
| NodeDataReply "8 word list list"
| ReceiptsRLPReply "8 word list list"
| GetBlockHeadersByNumber uint64 nat nat bool

text \<open>
  Modelled from the spec: the peer type (peer.go) is not among the sources. A peer has
  an id, a protocol version, a head hash and total difficulty, bounded sets of known
  block and transaction hashes, an optional fork-check timer (\<open>forkDrop\<close>, True when
  armed) and asynchronous queues for block propagations, block announcements and
  transaction batches. \<open>sent\<close> is what it wrote to its connection; a write fails
  with \<open>writeErr\<close> when that is set.
\<close>

record peer =
  pid :: string
  version :: nat
  trusted :: bool
  head :: hash
  td :: int
  knownBlocks :: "hash list"
  knownTxs :: "hash list"
  forkDrop :: bool
  queuedProps :: "(block \<times> int) list"
  queuedAnns :: "block list"
  queuedTxs :: "transaction list list"
  sent :: "wire_msg list"
  writeErr :: "error option"

text \<open>
  Calls into the fetcher, the downloader and the transaction pool, in the order made.
\<close>

datatype call =
  FetcherNotify string hash uint64 nat
| FetcherEnqueue string block
| FetcherFilterHeaders string "header list" nat
| DeliverHeaders string "header list"
| DeliverBodies string "transaction list list" "header list list"
| DeliverNodeData string "8 word list list"
| DeliverReceipts string "nat list list"
| Synchronise string
| AddRemotes "transaction list"
| UnregisterPeer string

text \<open>
  Constants and collaborator functions that the handler uses and that are declared
  outside the sources: the fetch limits of the downloader, the protocol's size limit,
  the bounds of the peer's known-sets and queues, the fetcher's header filter, the
  fork rule for a header's extra-data, the pool's per-transaction errors, the chain's
  insertion, the RLP encoding of a receipt list and the protocol versions on offer.
\<close>

record env =
  ProtocolMaxMsgSize :: nat
  MaxHeaderFetch :: int
  MaxBlockFetch :: int
  MaxStateFetch :: int
  MaxReceiptFetch :: int
  EmptyRootHash :: hash
  maxKnownBlocks :: nat
  maxKnownTxs :: nat
  maxQueuedProps :: nat
  maxQueuedAnns :: nat
  maxQueuedTxs :: nat
  FilterHeaders :: "string \<Rightarrow> header list \<Rightarrow> nat \<Rightarrow> header list"
  VerifyDAOHeaderExtraData :: "header \<Rightarrow> error option"
  poolErrors :: "transaction list \<Rightarrow> error option list"
  InsertChain :: "block list \<Rightarrow> blockchain \<Rightarrow> (int \<times> error option) \<times> blockchain"
  EncodeReceipts :: "nat list option \<Rightarrow> 8 word list option"
  ProtocolVersions :: "nat list"

record protocolManager =
  networkId :: uint64
  fastSync :: "32 word"
  acceptTxs :: "32 word"
  blockchain :: blockchain
  DAOForkBlock :: "int option"
  maxPeers :: int
  peers :: "peer list"
  calls :: "call list"
  warnings :: "log_event list"

subsection \<open>Peer operations\<close>

text \<open>
  Modelled from the spec: a bounded set of recently seen hashes. Marking a hash makes
  it known and keeps at most the bound (one at least).
\<close>

definition markKnown :: "nat \<Rightarrow> hash \<Rightarrow> hash list \<Rightarrow> hash list" where
  "markKnown bound h ks = (if h \<in> set ks then ks else h # take (bound - 1) ks)"

definition MarkBlock :: "env \<Rightarrow> peer \<Rightarrow> hash \<Rightarrow> peer" where
  "MarkBlock env p h = p\<lparr>knownBlocks := markKnown (maxKnownBlocks env) h (knownBlocks p)\<rparr>"

definition MarkTransaction :: "env \<Rightarrow> peer \<Rightarrow> hash \<Rightarrow> peer" where
  "MarkTransaction env p h = p\<lparr>knownTxs := markKnown (maxKnownTxs env) h (knownTxs p)\<rparr>"

definition SetHead :: "peer \<Rightarrow> hash \<Rightarrow> int \<Rightarrow> peer" where
  "SetHead p h d = p\<lparr>head := h, td := d\<rparr>"

text \<open>
  Modelled from the spec: an asynchronous queue of bounded capacity that drops its
  oldest entry on overflow instead of blocking the producer.
\<close>

definition enqueueDropOldest :: "nat \<Rightarrow> 'a \<Rightarrow> 'a list \<Rightarrow> 'a list" where
  "enqueueDropOldest bound x q = drop (Suc (length q) - bound) (q @ [x])"

text \<open>
  Modelled from the spec: the asynchronous sends queue the item for the peer and mark
  what was sent as known to it.
\<close>

definition AsyncSendNewBlock :: "env \<Rightarrow> block \<Rightarrow> int \<Rightarrow> peer \<Rightarrow> peer" where
  "AsyncSendNewBlock env b d p =
     (MarkBlock env p (blkHash b))
       \<lparr>queuedProps := enqueueDropOldest (maxQueuedProps env) (b, d) (queuedProps p)\<rparr>"

definition AsyncSendNewBlockHash :: "env \<Rightarrow> block \<Rightarrow> peer \<Rightarrow> peer" where
  "AsyncSendNewBlockHash env b p =
     (MarkBlock env p (blkHash b))
       \<lparr>queuedAnns := enqueueDropOldest (maxQueuedAnns env) b (queuedAnns p)\<rparr>"

definition AsyncSendTransactions :: "env \<Rightarrow> transaction list \<Rightarrow> peer \<Rightarrow> peer" where
  "AsyncSendTransactions env txs p =
     (fold (\<lambda>tx q. MarkTransaction env q (txHash tx)) txs p)
       \<lparr>queuedTxs := enqueueDropOldest (maxQueuedTxs env) txs (queuedTxs p)\<rparr>"

text \<open>Modelled from the spec: a write to the connection, which may fail.\<close>

definition sendMsg :: "peer \<Rightarrow> wire_msg \<Rightarrow> error option \<times> peer" where
  "sendMsg p m =
     (case writeErr p of
        Some e \<Rightarrow> (Some e, p)
      | None \<Rightarrow> (None, p\<lparr>sent := sent p @ [m]\<rparr>))"

section \<open>Inbound messages\<close>

text \<open>
  A payload is given by what it decodes to. \<open>PHashes\<close> is a list read item by item
  from an RLP stream, an item that does not decode as a hash being \<open>None\<close>;
  in \<open>PTxs\<close> a nil transaction pointer is \<open>None\<close>. \<open>PGarbage\<close> decodes as
  nothing.
\<close>

datatype payload =
  PQuery getBlockHeadersData
| PHeaders "header list"
| PHashes "hash option list"
| PBodies "(transaction list \<times> header list) list"
| PNodeData "8 word list list"
| PReceipts "nat list list"
| PAnnounces "(hash \<times> uint64) list"
| PNewBlock block int
| PTxs "transaction option list"
| PGarbage

record msg =
  Code :: nat
  Size :: nat
  msgReceivedAt :: nat
  Payload :: payload

text \<open>Modelled from the spec: the message codes and the version that adds state and
  receipt messages (protocol.go is not among the sources).\<close>

definition StatusMsg :: nat where "StatusMsg = 0"
definition NewBlockHashesMsg :: nat where "NewBlockHashesMsg = 1"
definition TxMsg :: nat where "TxMsg = 2"
definition GetBlockHeadersMsg :: nat where "GetBlockHeadersMsg = 3"
definition BlockHeadersMsg :: nat where "BlockHeadersMsg = 4"
definition GetBlockBodiesMsg :: nat where "GetBlockBodiesMsg = 5"
definition BlockBodiesMsg :: nat where "BlockBodiesMsg = 6"
definition NewBlockMsg :: nat where "NewBlockMsg = 7"
definition GetNodeDataMsg :: nat where "GetNodeDataMsg = 13"
definition NodeDataMsg :: nat where "NodeDataMsg = 14"
definition GetReceiptsMsg :: nat where "GetReceiptsMsg = 15"
definition ReceiptsMsg :: nat where "ReceiptsMsg = 16"
definition eth63 :: nat where "eth63 = 63"

type_synonym handled = "error option outcome \<times> protocolManager \<times> peer"

definition decodeError :: "protocolManager \<Rightarrow> peer \<Rightarrow> handled" where
  "decodeError pm p = (Done (Some (ErrResp ErrDecode)), pm, p)"

subsection \<open>GetBlockHeaders\<close>

definition handleGetBlockHeaders :: "env \<Rightarrow> payload \<Rightarrow> protocolManager \<Rightarrow> peer \<Rightarrow> handled" where
  "handleGetBlockHeaders env pl pm p =
     (case pl of
        PQuery query \<Rightarrow>
          (case answerGetBlockHeaders (blockchain pm) (MaxHeaderFetch env) query of
             Panic \<Rightarrow> (Panic, pm, p)
           | Done (headers, logs) \<Rightarrow>
               (case sendMsg p (BlockHeadersReply headers) of
                  (err, p') \<Rightarrow> (Done err, pm\<lparr>warnings := warnings pm @ logs\<rparr>, p')))
      | _ \<Rightarrow> decodeError pm p)"

subsection \<open>BlockHeaders\<close>

text \<open>
  The sanity check of an empty reply while the fork-check timer is armed: the value of
  \<open>verifyDAO\<close>. Reading the fork block of a configuration that has none, or comparing
  with a total difficulty the chain does not have, dereferences nil.
\<close>

definition verifyDAO :: "protocolManager \<Rightarrow> peer \<Rightarrow> bool outcome" where
  "verifyDAO pm p =
     (case DAOForkBlock pm of
        None \<Rightarrow> Panic
      | Some dao \<Rightarrow>
          (case GetHeaderByNumber (blockchain pm) (Uint64 dao) of
             None \<Rightarrow> Done True
           | Some daoHeader \<Rightarrow>
               (case GetTd (blockchain pm) (hdrHash daoHeader) (Uint64 (hdrNumber daoHeader)) of
                  None \<Rightarrow> Panic
                | Some localTd \<Rightarrow> Done (\<not> (td p \<ge> localTd)))))"

text \<open>The tail of the case; \<open>single\<close> is the source's \<open>filter\<close>: offer a single
  header to the fetcher, deliver the rest to the downloader.\<close>

definition deliverHeaders ::
  "env \<Rightarrow> nat \<Rightarrow> bool \<Rightarrow> header list \<Rightarrow> protocolManager \<Rightarrow> peer \<Rightarrow> handled" where
  "deliverHeaders env now single headers pm p =
     (let headers' = (if single then FilterHeaders env (pid p) headers now else headers);
          pm1 = (if single
                 then pm\<lparr>calls := calls pm @ [FetcherFilterHeaders (pid p) headers now]\<rparr>
                 else pm);
          pm2 = (if headers' \<noteq> [] \<or> \<not> single
                 then pm1\<lparr>calls := calls pm1 @ [DeliverHeaders (pid p) headers']\<rparr>
                 else pm1)
      in (Done None, pm2, p))"

definition filterHeaders ::
  "env \<Rightarrow> nat \<Rightarrow> header list \<Rightarrow> protocolManager \<Rightarrow> peer \<Rightarrow> handled" where
  "filterHeaders env now headers pm p =
     (case headers of
        [h] \<Rightarrow>
          (if forkDrop p then
             (case DAOForkBlock pm of
                None \<Rightarrow> (Panic, pm, p)
              | Some dao \<Rightarrow>
                  if dao = hdrNumber h then
                    (case VerifyDAOHeaderExtraData env h of
                       Some err \<Rightarrow> (Done (Some err), pm, p\<lparr>forkDrop := False\<rparr>)
                     | None \<Rightarrow> (Done None, pm, p\<lparr>forkDrop := False\<rparr>))
                  else deliverHeaders env now True headers pm p)
           else deliverHeaders env now True headers pm p)
      | _ \<Rightarrow> deliverHeaders env now False headers pm p)"

definition handleBlockHeaders ::
  "env \<Rightarrow> nat \<Rightarrow> payload \<Rightarrow> protocolManager \<Rightarrow> peer \<Rightarrow> handled" where
  "handleBlockHeaders env now pl pm p =
     (case pl of
        PHeaders headers \<Rightarrow>
          (if headers = [] \<and> forkDrop p then
             (case verifyDAO pm p of
                Panic \<Rightarrow> (Panic, pm, p)
              | Done True \<Rightarrow> (Done None, pm, p\<lparr>forkDrop := False\<rparr>)
              | Done False \<Rightarrow> filterHeaders env now headers pm p)
           else filterHeaders env now headers pm p)
      | _ \<Rightarrow> decodeError pm p)"

subsection \<open>Block bodies, node data and receipts\<close>

fun gatherBodies ::
  "blockchain \<Rightarrow> int \<Rightarrow> hash option list \<Rightarrow> nat \<Rightarrow> 8 word list list
     \<Rightarrow> error + 8 word list list" where
  "gatherBodies bc maxFetch [] bytes bodies = Inr bodies"
| "gatherBodies bc maxFetch (item # rest) bytes bodies =
     (if bytes < softResponseLimit \<and> int (length bodies) < maxFetch then
        (case item of
           None \<Rightarrow> Inl (ErrResp ErrDecode)
         | Some h \<Rightarrow>
             (let data = GetBodyRLP bc h in
              if data \<noteq> [] then gatherBodies bc maxFetch rest (bytes + length data) (bodies @ [data])
              else gatherBodies bc maxFetch rest bytes bodies))
      else Inr bodies)"

fun gatherNodeData ::
  "blockchain \<Rightarrow> int \<Rightarrow> hash option list \<Rightarrow> nat \<Rightarrow> 8 word list list
     \<Rightarrow> error + 8 word list list" where
  "gatherNodeData bc maxFetch [] bytes nodes = Inr nodes"
| "gatherNodeData bc maxFetch (item # rest) bytes nodes =
     (if bytes < softResponseLimit \<and> int (length nodes) < maxFetch then
        (case item of
           None \<Rightarrow> Inl (ErrResp ErrDecode)
         | Some h \<Rightarrow>
             (case TrieNode bc h of
                Some entry \<Rightarrow>
                  gatherNodeData bc maxFetch rest (bytes + length entry) (nodes @ [entry])
              | None \<Rightarrow> gatherNodeData bc maxFetch rest bytes nodes))
      else Inr nodes)"

fun gatherReceipts ::
  "env \<Rightarrow> blockchain \<Rightarrow> hash option list \<Rightarrow> nat \<Rightarrow> 8 word list list
     \<Rightarrow> error + 8 word list list" where
  "gatherReceipts env bc [] bytes receipts = Inr receipts"
| "gatherReceipts env bc (item # rest) bytes receipts =
     (if bytes < softResponseLimit \<and> int (length receipts) < MaxReceiptFetch env then
        (case item of
           None \<Rightarrow> Inl (ErrResp ErrDecode)
         | Some h \<Rightarrow>
             (let results = GetReceiptsByHash bc h;
                  skip = (results = None \<and>
                          (case GetHeaderByHash bc h of
                             None \<Rightarrow> True
                           | Some header \<Rightarrow> hdrReceiptHash header \<noteq> EmptyRootHash env))
              in if skip then gatherReceipts env bc rest bytes receipts
                 else
                   (case EncodeReceipts env results of
                      None \<Rightarrow> gatherReceipts env bc rest bytes receipts
                    | Some encoded \<Rightarrow>
                        gatherReceipts env bc rest (bytes + length encoded) (receipts @ [encoded]))))
      else Inr receipts)"

text \<open>The three retrieval cases: a payload that is not a list fails in \<open>List()\<close>.\<close>

definition replyOrFail ::
  "(8 word list list \<Rightarrow> wire_msg) \<Rightarrow> error + 8 word list list \<Rightarrow> protocolManager \<Rightarrow> peer
     \<Rightarrow> handled" where
  "replyOrFail mk r pm p =
     (case r of
        Inl e \<Rightarrow> (Done (Some e), pm, p)
      | Inr items \<Rightarrow> (case sendMsg p (mk items) of (err, p') \<Rightarrow> (Done err, pm, p')))"

definition handleGetBlockBodies :: "env \<Rightarrow> payload \<Rightarrow> protocolManager \<Rightarrow> peer \<Rightarrow> handled" where
  "handleGetBlockBodies env pl pm p =
     (case pl of
        PHashes items \<Rightarrow>
          replyOrFail BlockBodiesRLPReply
            (gatherBodies (blockchain pm) (MaxBlockFetch env) items 0 []) pm p
      | _ \<Rightarrow> (Done (Some (External ''rlp: expected List'')), pm, p))"

definition handleGetNodeData :: "env \<Rightarrow> payload \<Rightarrow> protocolManager \<Rightarrow> peer \<Rightarrow> handled" where
  "handleGetNodeData env pl pm p =
     (case pl of
        PHashes items \<Rightarrow>
          replyOrFail NodeDataReply
            (gatherNodeData (blockchain pm) (MaxStateFetch env) items 0 []) pm p
      | _ \<Rightarrow> (Done (Some (External ''rlp: expected List'')), pm, p))"

definition handleGetReceipts :: "env \<Rightarrow> payload \<Rightarrow> protocolManager \<Rightarrow> peer \<Rightarrow> handled" where
  "handleGetReceipts env pl pm p =
     (case pl of
        PHashes items \<Rightarrow>
          replyOrFail ReceiptsRLPReply (gatherReceipts env (blockchain pm) items 0 []) pm p
      | _ \<Rightarrow> (Done (Some (External ''rlp: expected List'')), pm, p))"

definition handleBlockBodies :: "payload \<Rightarrow> protocolManager \<Rightarrow> peer \<Rightarrow> handled" where
  "handleBlockBodies pl pm p =
     (case pl of
        PBodies request \<Rightarrow>
          (Done None,
           pm\<lparr>calls := calls pm @ [DeliverBodies (pid p) (map fst request) (map snd request)]\<rparr>,
           p)
      | _ \<Rightarrow> decodeError pm p)"

definition handleNodeData :: "payload \<Rightarrow> protocolManager \<Rightarrow> peer \<Rightarrow> handled" where
  "handleNodeData pl pm p =
     (case pl of
        PNodeData nodes \<Rightarrow> (Done None, pm\<lparr>calls := calls pm @ [DeliverNodeData (pid p) nodes]\<rparr>, p)
      | _ \<Rightarrow> decodeError pm p)"

definition handleReceipts :: "payload \<Rightarrow> protocolManager \<Rightarrow> peer \<Rightarrow> handled" where
  "handleReceipts pl pm p =
     (case pl of
        PReceipts rs \<Rightarrow> (Done None, pm\<lparr>calls := calls pm @ [DeliverReceipts (pid p) rs]\<rparr>, p)
      | _ \<Rightarrow> decodeError pm p)"

subsection \<open>NewBlockHashes, NewBlock and Tx\<close>

definition handleNewBlockHashes ::
  "env \<Rightarrow> nat \<Rightarrow> payload \<Rightarrow> protocolManager \<Rightarrow> peer \<Rightarrow> handled" where
  "handleNewBlockHashes env now pl pm p =
     (case pl of
        PAnnounces announces \<Rightarrow>
          (let p' = fold (\<lambda>(h, n) q. MarkBlock env q h) announces p;
               unknown = filter (\<lambda>(h, n). \<not> HasBlock (blockchain pm) h n) announces
           in (Done None,
               pm\<lparr>calls := calls pm @ map (\<lambda>(h, n). FetcherNotify (pid p) h n now) unknown\<rparr>,
               p'))
      | _ \<Rightarrow> decodeError pm p)"

definition handleNewBlock ::
  "env \<Rightarrow> nat \<Rightarrow> payload \<Rightarrow> protocolManager \<Rightarrow> peer \<Rightarrow> handled" where
  "handleNewBlock env receivedAt pl pm p =
     (case pl of
        PNewBlock blk TD \<Rightarrow>
          (let request = blk\<lparr>ReceivedAt := receivedAt, ReceivedFrom := Some (pid p)\<rparr>;
               p1 = MarkBlock env p (blkHash request);
               pm1 = pm\<lparr>calls := calls pm @ [FetcherEnqueue (pid p) request]\<rparr>;
               trueHead = blkParentHash request;
               trueTD = TD - blkDifficulty request
           in if trueTD > td p1 then
                (let p2 = SetHead p1 trueHead trueTD;
                     currentBlock = CurrentBlock (blockchain pm)
                 in case GetTd (blockchain pm) (blkHash currentBlock) (blkNumberU64 currentBlock) of
                      None \<Rightarrow> (Panic, pm1, p2)
                    | Some localTd \<Rightarrow>
                        if trueTD > localTd
                        then (Done None, pm1\<lparr>calls := calls pm1 @ [Synchronise (pid p)]\<rparr>, p2)
                        else (Done None, pm1, p2))
              else (Done None, pm1, p1))
      | _ \<Rightarrow> decodeError pm p)"

text \<open>
  The loop over the decoded batch: a nil transaction ends it with an error, the
  transactions before it already marked.
\<close>

fun markTransactions :: "env \<Rightarrow> peer \<Rightarrow> transaction option list \<Rightarrow> bool \<times> peer" where
  "markTransactions env p [] = (True, p)"
| "markTransactions env p (None # rest) = (False, p)"
| "markTransactions env p (Some tx # rest) =
     markTransactions env (MarkTransaction env p (txHash tx)) rest"

definition handleTx :: "env \<Rightarrow> payload \<Rightarrow> protocolManager \<Rightarrow> peer \<Rightarrow> handled" where
  "handleTx env pl pm p =
     (if acceptTxs pm = 0 then (Done None, pm, p)
      else
        (case pl of
           PTxs txs \<Rightarrow>
             (case markTransactions env p txs of
                (False, p') \<Rightarrow> (Done (Some (ErrResp ErrDecode)), pm, p')
              | (True, p') \<Rightarrow>
                  (Done None, pm\<lparr>calls := calls pm @ [AddRemotes (map the txs)]\<rparr>, p'))
         | _ \<Rightarrow> decodeError pm p))"

subsection \<open>The dispatcher\<close>

text \<open>
  \<open>handleMsg\<close>: the result of \<open>ReadMsg\<close> is the input (\<open>Inl\<close> a read error).
  The outcome is the error the handler returns (\<open>None\<close> for nil) together with the
  manager and the peer as the call leaves them.
\<close>

definition handleMsg ::
  "env \<Rightarrow> nat \<Rightarrow> error + msg \<Rightarrow> protocolManager \<Rightarrow> peer \<Rightarrow> handled" where
  "handleMsg env now rd pm p =
     (case rd of
        Inl err \<Rightarrow> (Done (Some err), pm, p)
      | Inr m \<Rightarrow>
          if Size m > ProtocolMaxMsgSize env then (Done (Some (ErrResp ErrMsgTooLarge)), pm, p)
          else if Code m = StatusMsg then (Done (Some (ErrResp ErrExtraStatusMsg)), pm, p)
          else if Code m = GetBlockHeadersMsg then handleGetBlockHeaders env (Payload m) pm p
          else if Code m = BlockHeadersMsg then handleBlockHeaders env now (Payload m) pm p
          else if Code m = GetBlockBodiesMsg then handleGetBlockBodies env (Payload m) pm p
          else if Code m = BlockBodiesMsg then handleBlockBodies (Payload m) pm p
          else if version p \<ge> eth63 \<and> Code m = GetNodeDataMsg
            then handleGetNodeData env (Payload m) pm p
          else if version p \<ge> eth63 \<and> Code m = NodeDataMsg then handleNodeData (Payload m) pm p
          else if version p \<ge> eth63 \<and> Code m = GetReceiptsMsg
            then handleGetReceipts env (Payload m) pm p
          else if version p \<ge> eth63 \<and> Code m = ReceiptsMsg then handleReceipts (Payload m) pm p
          else if Code m = NewBlockHashesMsg then handleNewBlockHashes env now (Payload m) pm p
          else if Code m = NewBlockMsg
            then handleNewBlock env (msgReceivedAt m) (Payload m) pm p
          else if Code m = TxMsg then handleTx env (Payload m) pm p
          else (Done (Some (ErrResp ErrInvalidMsgCode)), pm, p))"

section \<open>The manager's own operations\<close>

datatype SyncMode = FullSync | FastSync

text \<open>
  \<open>NewProtocolManager\<close>: fast sync is switched off for a chain that is not empty, the
  flag \<open>acceptTxs\<close> starts at its zero value, and a mode that leaves no protocol
  version to run is refused.
\<close>

definition errIncompatibleConfig :: error where
  "errIncompatibleConfig = External ''incompatible configuration''"

definition NewProtocolManager ::
  "env \<Rightarrow> SyncMode \<Rightarrow> uint64 \<Rightarrow> blockchain \<Rightarrow> int option \<Rightarrow> error + protocolManager" where
  "NewProtocolManager env mode0 nid bc dao =
     (let mode = (if mode0 = FastSync \<and> blkNumberU64 (CurrentBlock bc) > 0 then FullSync else mode0);
          subProtocols = filter (\<lambda>v. \<not> (mode = FastSync \<and> v < eth63)) (ProtocolVersions env)
      in if subProtocols = [] then Inl errIncompatibleConfig
         else Inr \<lparr>networkId = nid, fastSync = (if mode = FastSync then 1 else 0), acceptTxs = 0,
                   blockchain = bc, DAOForkBlock = dao, maxPeers = 0, peers = [], calls = [],
                   warnings = []\<rparr>)"

text \<open>
  The fetcher's \<open>inserter\<close> callback. The log line of the fast-sync branch reads
  \<open>blocks[0]\<close>, which panics on an empty batch.
\<close>

definition inserter ::
  "env \<Rightarrow> block list \<Rightarrow> protocolManager \<Rightarrow> (int \<times> error option) outcome \<times> protocolManager" where
  "inserter env blocks pm =
     (if fastSync pm = 1 then
        (if blocks = [] then (Panic, pm) else (Done (0, None), pm))
      else
        (let pm1 = pm\<lparr>acceptTxs := 1\<rparr> in
         case InsertChain env blocks (blockchain pm1) of
           (r, bc') \<Rightarrow> (Done r, pm1\<lparr>blockchain := bc'\<rparr>)))"

text \<open>
  \<open>removePeer\<close>: a no-op for an id that is not registered; otherwise the peer is
  unregistered from the downloader and from the peer set.
\<close>

definition removePeer :: "string \<Rightarrow> protocolManager \<Rightarrow> protocolManager" where
  "removePeer ident pm =
     (if ident \<notin> pid ` set (peers pm) then pm
      else pm\<lparr>peers := filter (\<lambda>p. pid p \<noteq> ident) (peers pm),
              calls := calls pm @ [UnregisterPeer ident]\<rparr>)"

definition Start :: "int \<Rightarrow> protocolManager \<Rightarrow> protocolManager" where
  "Start n pm = pm\<lparr>maxPeers := n\<rparr>"

text \<open>
  The fork challenge of \<open>handle\<close>: with a fork block configured, request the one
  header at that number and arm the timer.
\<close>

definition forkChallenge :: "protocolManager \<Rightarrow> peer \<Rightarrow> error option \<times> peer" where
  "forkChallenge pm p =
     (case DAOForkBlock pm of
        None \<Rightarrow> (None, p)
      | Some daoBlock \<Rightarrow>
          (case sendMsg p (GetBlockHeadersByNumber (Uint64 daoBlock) 1 0 False) of
             (Some err, p') \<Rightarrow> (Some err, p')
           | (None, p') \<Rightarrow> (None, p'\<lparr>forkDrop := True\<rparr>)))"

subsection \<open>Broadcasting\<close>

text \<open>
  \<open>int(math.Sqrt(float64(n)))\<close>: the integer square root, found by counting up.
  (The floating-point root, truncated, is this value for every \<open>n\<close> below \<open>2^52\<close>.)
\<close>

function sqrtFrom :: "nat \<Rightarrow> nat \<Rightarrow> nat" where
  "sqrtFrom n r = (if (r + 1) * (r + 1) \<le> n then sqrtFrom n (r + 1) else r)"
  by pat_completeness auto
termination
proof (relation "measure (\<lambda>(n, r). n - r)")
  show "wf (measure (\<lambda>(n, r). n - r))" by simp
next
  fix n r :: nat
  assume le: "(r + 1) * (r + 1) \<le> n"
  have "r + 1 \<le> (r + 1) * (r + 1)" by simp
  with le have "r + 1 \<le> n" by linarith
  then show "((n, r + 1), (n, r)) \<in> measure (\<lambda>(n, r). n - r)" by simp
qed

declare sqrtFrom.simps [simp del]

definition intSqrt :: "nat \<Rightarrow> nat" where
  "intSqrt n = sqrtFrom n 0"

text \<open>
  Modelled from the spec: \<open>PeersWithoutBlock\<close> and \<open>PeersWithoutTx\<close> of the peer
  set (peer.go is not among the sources) return the peers whose known-set lacks the
  hash. A peer pointer is its position in the set's enumeration, whose order is
  arbitrary.
\<close>

definition PeersWithoutBlock :: "peer list \<Rightarrow> hash \<Rightarrow> nat list" where
  "PeersWithoutBlock ps h = filter (\<lambda>i. h \<notin> set (knownBlocks (ps ! i))) [0..<length ps]"

text \<open>Calling a mutating method on each peer of a list of pointers.\<close>

definition forEachPeer :: "nat list \<Rightarrow> (peer \<Rightarrow> peer) \<Rightarrow> peer list \<Rightarrow> peer list" where
  "forEachPeer ptrs f ps = fold (\<lambda>i qs. qs[i := f (qs ! i)]) ptrs ps"

definition BroadcastBlock ::
  "env \<Rightarrow> block \<Rightarrow> bool \<Rightarrow> protocolManager \<Rightarrow> protocolManager outcome" where
  "BroadcastBlock env b propagate pm =
     (let h = blkHash b; ps = PeersWithoutBlock (peers pm) h in
      if propagate then
        (case GetBlock (blockchain pm) (blkParentHash b) (blkNumberU64 b - 1) of
           None \<Rightarrow> Done (pm\<lparr>warnings := warnings pm @ [PropagatingDanglingBlock (blkNumberU64 b) h]\<rparr>)
         | Some parent \<Rightarrow>
             (case GetTd (blockchain pm) (blkParentHash b) (blkNumberU64 b - 1) of
                None \<Rightarrow> Panic
              | Some parentTd \<Rightarrow>
                  (let d = blkDifficulty b + parentTd;
                       transfer = take (intSqrt (length ps)) ps
                   in Done (pm\<lparr>peers := forEachPeer transfer (AsyncSendNewBlock env b d) (peers pm)\<rparr>))))
      else if HasBlock (blockchain pm) h (blkNumberU64 b) then
        Done (pm\<lparr>peers := forEachPeer ps (AsyncSendNewBlockHash env b) (peers pm)\<rparr>)
      else Done pm)"

text \<open>One \<open>NewMinedBlockEvent\<close> of the mined broadcast loop: propagate, then announce.\<close>

definition minedBroadcast :: "env \<Rightarrow> block \<Rightarrow> protocolManager \<Rightarrow> protocolManager outcome" where
  "minedBroadcast env b pm =
     (case BroadcastBlock env b True pm of
        Panic \<Rightarrow> Panic
      | Done pm1 \<Rightarrow> BroadcastBlock env b False pm1)"

definition BroadcastTxs :: "env \<Rightarrow> transaction list \<Rightarrow> protocolManager \<Rightarrow> protocolManager" where
  "BroadcastTxs env txs pm =
     pm\<lparr>peers :=
          map (\<lambda>p. let mine = filter (\<lambda>tx. txHash tx \<notin> set (knownTxs p)) txs
                   in if mine = [] then p else AsyncSendTransactions env mine p)
              (peers pm)\<rparr>"

section \<open>The UDP verifier channel\<close>

text \<open>
  A datagram is given by what its JSON unmarshals to: \<open>None\<close> when the envelope does
  not unmarshal, and for the \<open>Data\<close> field what it unmarshals to as a consensus
  result and as a node list, if it does.
\<close>

record consensusResult =
  Result :: nat
  Txs :: "transaction list"

record udpData =
  asConsensusResult :: "consensusResult option"
  asNodeList :: "nat list option"

record msgToMiner =
  BlockNum :: nat
  MsgType :: int
  Data :: udpData

text \<open>
  A send on a buffered channel of capacity \<open>cap\<close>: the value joins the buffer while
  there is room; with the buffer full the sender blocks (\<open>None\<close>) until a receiver
  takes a value.
\<close>

definition chanSend :: "nat \<Rightarrow> 'a \<Rightarrow> 'a list \<Rightarrow> 'a list option" where
  "chanSend cap x buf = (if length buf < cap then Some (buf @ [x]) else None)"

text \<open>How a call ends: it returns or panics, or it blocks on a channel.\<close>

datatype 'a progress = Finished "'a outcome" | Blocked

text \<open>
  The handler's state: the verifier pointer (nil until \<open>AddVerifier\<close>), the buffer of
  the channel to the miner, which \<open>NewProtocolManager\<close> makes with capacity 1
  and whose receiver is not among the sources, and the batches handed to the pool's
  \<open>AddRemotes\<close>.
  Modelled from the spec: the verifier (package verify) is not among the sources; it
  validates the signature block of a consensus result. What its method \<open>DposTx\<close>
  does when it is called through the handler's pointer, nil or not, is the parameter
  \<open>dposTx\<close> of \<open>AddUDPMsg\<close>: the verdict, or a panic.

  In \<open>AddUDPMsg\<close> the result \<open>Blocked\<close> is the handler waiting in the send to the
  full channel, its state unchanged. The transaction pointers that the source checks
  for nil are addresses of slice elements, so that check never fires, and what
  \<open>AddRemotes\<close> returns is only logged.
\<close>

record 'v UDPHandler =
  verifier :: "'v option"
  broadcastInfoCh :: "(nat list \<times> nat) list"
  poolBatches :: "transaction list list"

definition broadcastInfoCap :: nat where
  "broadcastInfoCap = 1"

definition AddVerifier :: "'v \<Rightarrow> 'v UDPHandler \<Rightarrow> 'v UDPHandler" where
  "AddVerifier v h = h\<lparr>verifier := Some v\<rparr>"

definition verifyError :: "'v UDPHandler \<Rightarrow> error option progress \<times> 'v UDPHandler" where
  "verifyError h = (Finished (Done (Some (ErrResp ErrVerify))), h)"

definition AddUDPMsg ::
  "('v option \<Rightarrow> nat \<Rightarrow> bool outcome) \<Rightarrow> msgToMiner option \<Rightarrow> 'v UDPHandler
    \<Rightarrow> error option progress \<times> 'v UDPHandler" where
  "AddUDPMsg dposTx datagram h =
     (case datagram of
        None \<Rightarrow> verifyError h
      | Some verifierMsg \<Rightarrow>
          if MsgType verifierMsg = 1 then
            (case asConsensusResult (Data verifierMsg) of
               None \<Rightarrow> verifyError h
             | Some txData \<Rightarrow>
                 (case dposTx (verifier h) (Result txData) of
                    Panic \<Rightarrow> (Finished Panic, h)
                  | Done ok \<Rightarrow>
                      if \<not> ok then verifyError h
                      else if Txs txData = [] then (Finished (Done None), h)
                      else (Finished (Done None), h\<lparr>poolBatches := poolBatches h @ [Txs txData]\<rparr>)))
          else if MsgType verifierMsg = 2 then
            (case asNodeList (Data verifierMsg) of
               None \<Rightarrow> verifyError h
             | Some nodeList \<Rightarrow>
                 (case chanSend broadcastInfoCap (nodeList, BlockNum verifierMsg) (broadcastInfoCh h) of
                    None \<Rightarrow> (Blocked, h)
                  | Some buf \<Rightarrow> (Finished (Done None), h\<lparr>broadcastInfoCh := buf\<rparr>)))
          else (Finished (Done None), h))"

section \<open>The manifest trie\<close>

text \<open>
  The content type that marks an entry as a reference to a sub-manifest, as the source
  spells it.
\<close>

definition ManifestType :: string where
  "ManifestType = ''application/bzz-ptcifest+json''"

text \<open>\<open>EntrySize\<close> is the Go field \<open>Size\<close>; \<open>ModTime\<close> is a time stamp, 0 the zero time.\<close>

record ManifestEntry =
  Hash :: string
  Path :: string
  ContentType :: string
  Mode :: int
  EntrySize :: int
  ModTime :: int
  Status :: int

text \<open>
  A trie has 257 slots, indexed by the first byte of an entry's path, slot 256 for the
  empty path, and the key under which it is stored, if it is. A trie entry is a
  manifest entry with the sub-trie it points to, once that is loaded.
\<close>

datatype manifestTrie =
  ManifestTrie (entries: "(ManifestEntry \<times> manifestTrie option) option list")
    (trieHash: "string option")

type_synonym manifestTrieEntry = "ManifestEntry \<times> manifestTrie option"

definition newTrie :: manifestTrie where
  "newTrie = ManifestTrie (replicate 257 None) None"

definition newManifestTrieEntry :: "ManifestEntry \<Rightarrow> manifestTrie option \<Rightarrow> manifestTrieEntry" where
  "newManifestTrieEntry entry subtrie = (entry, subtrie)"

definition setSlot :: "manifestTrie \<Rightarrow> nat \<Rightarrow> manifestTrieEntry option \<Rightarrow> manifestTrie" where
  "setSlot self i v = ManifestTrie ((entries self)[i := v]) (trieHash self)"

definition StatusMultipleChoices :: int where
  "StatusMultipleChoices = 300"

text \<open>
  Modelled from the spec: the content-addressed store (\<open>storage.DPA\<close>) is not among
  the sources. A key is the hexadecimal string that an entry's \<open>Hash\<close> holds; what is
  stored under a key is either the JSON of a manifest, given by the entries it
  unmarshals to, or other data. Storing a manifest puts it under the key of its
  content (\<open>keyOf\<close>), unless the store reports an error.
\<close>

datatype content = ManifestData "ManifestEntry list" | OtherData

record DPA =
  chunks :: "string \<Rightarrow> content option"
  keyOf :: "ManifestEntry list \<Rightarrow> string"
  storeErr :: "error option"

definition Store :: "DPA \<Rightarrow> ManifestEntry list \<Rightarrow> (string option \<times> error option) \<times> DPA" where
  "Store dpa list =
     (case storeErr dpa of
        Some e \<Rightarrow> ((None, Some e), dpa)
      | None \<Rightarrow>
          (let key = keyOf dpa list
           in ((Some key, None), dpa\<lparr>chunks := (chunks dpa)(key \<mapsto> ManifestData list)\<rparr>)))"

text \<open>The length of the longest common prefix, the loop that computes \<open>cpl\<close>.\<close>

fun commonPrefixLen :: "string \<Rightarrow> string \<Rightarrow> nat" where
  "commonPrefixLen (x # xs) (y # ys) = (if x = y then Suc (commonPrefixLen xs ys) else 0)"
| "commonPrefixLen xs ys = 0"

subsection \<open>Loading and adding\<close>

text \<open>
  Loading a sub-trie reads a manifest from the store, which adds its entries, which may
  load further sub-tries: a store that refers to itself makes this run forever. The
  functions therefore take a bound on the depth of the calls as their first argument,
  and \<open>None\<close> is a run that has not returned within the bound. Each function body is
  written once, with the functions it calls as its first arguments (\<open>readManifest'\<close>,
  \<open>addEntry'\<close>, \<open>loadSubTrie'\<close>, ...); the recursive definitions below pass in
  the functions of the next smaller bound.

  \<open>loadSubTrie\<close> returns the entry as the call leaves it, with the sub-trie or the
  error.
\<close>

definition loadSubTrieBody ::
  "(content option \<Rightarrow> (error + manifestTrie) option) \<Rightarrow> DPA \<Rightarrow> manifestTrieEntry
     \<Rightarrow> (ManifestEntry \<times> (error + manifestTrie)) option" where
  "loadSubTrieBody readManifest' dpa e =
     (case e of (entry, sub) \<Rightarrow>
        (case sub of
           Some s \<Rightarrow> Some (entry, Inr s)
         | None \<Rightarrow>
             (case readManifest' (chunks dpa (Hash entry)) of
                None \<Rightarrow> None
              | Some (Inl err) \<Rightarrow> Some (entry\<lparr>Hash := ''''\<rparr>, Inl err)
              | Some (Inr trie) \<Rightarrow> Some (entry\<lparr>Hash := ''''\<rparr>, Inr trie))))"

text \<open>The sub-trie an entry holds after \<open>loadSubTrie\<close>.\<close>

definition loaded :: "error + manifestTrie \<Rightarrow> manifestTrie option" where
  "loaded r = (case r of Inl err \<Rightarrow> None | Inr s \<Rightarrow> Some s)"

text \<open>
  \<open>addEntry\<close> has no result in the source: where loading the sub-trie fails it
  returns silently, the old entry left without hash and sub-trie.
\<close>

definition addEntryBody ::
  "(manifestTrie \<Rightarrow> manifestTrieEntry \<Rightarrow> manifestTrie option)
     \<Rightarrow> (manifestTrieEntry \<Rightarrow> (ManifestEntry \<times> (error + manifestTrie)) option)
     \<Rightarrow> manifestTrie \<Rightarrow> manifestTrieEntry \<Rightarrow> manifestTrie option" where
  "addEntryBody addEntry' loadSubTrie' self0 e =
     (case e of (entry, esub) \<Rightarrow>
      (let self = ManifestTrie (entries self0) None in
       case Path entry of
         [] \<Rightarrow> Some (setSlot self 256 (Some (entry, esub)))
       | c # cs \<Rightarrow>
           (let b = of_char c in
            case entries self ! b of
              None \<Rightarrow> Some (setSlot self b (Some (entry, esub)))
            | Some (oldentry, oldsub) \<Rightarrow>
                if Path oldentry = Path entry \<and> ContentType oldentry \<noteq> ManifestType
                then Some (setSlot self b (Some (entry, esub)))
                else
                  (let cpl = commonPrefixLen (Path entry) (Path oldentry) in
                   if ContentType oldentry = ManifestType \<and> cpl = length (Path oldentry) then
                     (case loadSubTrie' (oldentry, oldsub) of
                        None \<Rightarrow> None
                      | Some (oldentry', Inl err) \<Rightarrow> Some (setSlot self b (Some (oldentry', None)))
                      | Some (oldentry', Inr sub) \<Rightarrow>
                          (case addEntry' sub (entry\<lparr>Path := drop cpl (Path entry)\<rparr>, esub) of
                             None \<Rightarrow> None
                           | Some sub' \<Rightarrow>
                               Some (setSlot self b (Some (oldentry'\<lparr>Hash := ''''\<rparr>, Some sub')))))
                   else
                     (let commonPrefix = take cpl (Path entry) in
                      case addEntry' newTrie (entry\<lparr>Path := drop cpl (Path entry)\<rparr>, esub) of
                        None \<Rightarrow> None
                      | Some s1 \<Rightarrow>
                          (case addEntry' s1 (oldentry\<lparr>Path := drop cpl (Path oldentry)\<rparr>, oldsub) of
                             None \<Rightarrow> None
                           | Some subtrie \<Rightarrow>
                               Some (setSlot self b
                                 (Some (newManifestTrieEntry
                                    \<lparr>Hash = '''', Path = commonPrefix, ContentType = ManifestType,
                                     Mode = 0, EntrySize = 0, ModTime = 0, Status = 0\<rparr>
                                    (Some subtrie))))))))))"

text \<open>The loop of \<open>readManifest\<close> over the unmarshalled entries.\<close>

fun addEntries ::
  "(manifestTrie \<Rightarrow> manifestTrieEntry \<Rightarrow> manifestTrie option) \<Rightarrow> ManifestEntry list
     \<Rightarrow> manifestTrie \<Rightarrow> manifestTrie option" where
  "addEntries addEntry' [] trie = Some trie"
| "addEntries addEntry' (entry # rest) trie =
     (case addEntry' trie (entry, None) of
        None \<Rightarrow> None
      | Some trie' \<Rightarrow> addEntries addEntry' rest trie')"

text \<open>
  \<open>readManifest\<close> gets what the reader delivers: \<open>None\<close> when the size cannot be
  determined, other data when the JSON does not unmarshal.
\<close>

definition readManifestBody ::
  "(manifestTrie \<Rightarrow> manifestTrieEntry \<Rightarrow> manifestTrie option) \<Rightarrow> content option
     \<Rightarrow> (error + manifestTrie) option" where
  "readManifestBody addEntry' c =
     (case c of
        None \<Rightarrow> Some (Inl (External ''Manifest not Found''))
      | Some OtherData \<Rightarrow> Some (Inl (External ''Manifest is malformed''))
      | Some (ManifestData list) \<Rightarrow>
          (case addEntries addEntry' list newTrie of
             None \<Rightarrow> None
           | Some trie \<Rightarrow> Some (Inr trie)))"

fun readManifest :: "nat \<Rightarrow> DPA \<Rightarrow> content option \<Rightarrow> (error + manifestTrie) option"
  and addEntry :: "nat \<Rightarrow> DPA \<Rightarrow> manifestTrie \<Rightarrow> manifestTrieEntry \<Rightarrow> manifestTrie option"
where
  "readManifest 0 dpa c = None"
| "readManifest (Suc n) dpa c = readManifestBody (\<lambda>trie e. addEntry n dpa trie e) c"
| "addEntry 0 dpa self e = None"
| "addEntry (Suc n) dpa self e =
     addEntryBody (\<lambda>trie e'. addEntry n dpa trie e')
       (loadSubTrieBody (\<lambda>c. readManifest n dpa c) dpa) self e"

definition loadSubTrie ::
  "nat \<Rightarrow> DPA \<Rightarrow> manifestTrieEntry \<Rightarrow> (ManifestEntry \<times> (error + manifestTrie)) option" where
  "loadSubTrie n dpa e = loadSubTrieBody (readManifest n dpa) dpa e"

definition loadManifest :: "nat \<Rightarrow> DPA \<Rightarrow> string \<Rightarrow> (error + manifestTrie) option" where
  "loadManifest n dpa key = readManifest n dpa (chunks dpa key)"

subsection \<open>Deleting\<close>

definition getCountLast :: "manifestTrie \<Rightarrow> nat \<times> manifestTrieEntry option" where
  "getCountLast self =
     (let present = List.map_filter (\<lambda>e. e) (entries self)
      in (length present, if present = [] then None else Some (last present)))"

definition deleteEntryBody ::
  "(manifestTrie \<Rightarrow> string \<Rightarrow> manifestTrie option)
     \<Rightarrow> (manifestTrieEntry \<Rightarrow> (ManifestEntry \<times> (error + manifestTrie)) option)
     \<Rightarrow> manifestTrie \<Rightarrow> string \<Rightarrow> manifestTrie option" where
  "deleteEntryBody deleteEntry' loadSubTrie' self0 path =
     (let self = ManifestTrie (entries self0) None in
      case path of
        [] \<Rightarrow> Some (setSlot self 256 None)
      | c # cs \<Rightarrow>
          (let b = of_char c in
           case entries self ! b of
             None \<Rightarrow> Some self
           | Some (entry, sub) \<Rightarrow>
               if Path entry = path then Some (setSlot self b None)
               else
                 (let epl = length (Path entry) in
                  if ContentType entry = ManifestType \<and> length path \<ge> epl
                     \<and> take epl path = Path entry then
                    (case loadSubTrie' (entry, sub) of
                       None \<Rightarrow> None
                     | Some (entry', Inl err) \<Rightarrow> Some (setSlot self b (Some (entry', None)))
                     | Some (entry', Inr subtrie) \<Rightarrow>
                         (case deleteEntry' subtrie (drop epl path) of
                            None \<Rightarrow> None
                          | Some subtrie' \<Rightarrow>
                              (let entry'' = entry'\<lparr>Hash := ''''\<rparr> in
                               case getCountLast subtrie' of
                                 (cnt, lastentry) \<Rightarrow>
                                   if cnt < 2 then
                                     (case lastentry of
                                        Some (le, lsub) \<Rightarrow>
                                          Some (setSlot self b
                                            (Some (le\<lparr>Path := Path entry'' @ Path le\<rparr>, lsub)))
                                      | None \<Rightarrow> Some (setSlot self b None))
                                   else Some (setSlot self b (Some (entry'', Some subtrie'))))))
                  else Some self)))"

fun deleteEntry :: "nat \<Rightarrow> DPA \<Rightarrow> manifestTrie \<Rightarrow> string \<Rightarrow> manifestTrie option" where
  "deleteEntry 0 dpa self path = None"
| "deleteEntry (Suc n) dpa self path =
     deleteEntryBody (\<lambda>trie p. deleteEntry n dpa trie p) (loadSubTrie n dpa) self path"

subsection \<open>Storing\<close>

text \<open>
  \<open>recalcAndStore\<close> walks the slots in order; \<open>recalcEntries\<close> is that loop. An entry
  with an empty hash has its sub-trie stored first; without a sub-trie the call on the
  nil pointer panics. The list that is stored holds the manifest entries of the slots
  in use.
\<close>

function recalcAndStore :: "DPA \<Rightarrow> manifestTrie \<Rightarrow> error option outcome \<times> manifestTrie \<times> DPA"
  and recalcEntries ::
    "DPA \<Rightarrow> manifestTrieEntry option list
      \<Rightarrow> error option outcome \<times> manifestTrieEntry option list \<times> DPA"
where
  "recalcAndStore dpa (ManifestTrie es h) =
     (case h of
        Some key \<Rightarrow> (Done None, ManifestTrie es h, dpa)
      | None \<Rightarrow>
          (case recalcEntries dpa es of
             (Done None, es', dpa1) \<Rightarrow>
               (case Store dpa1 (map fst (List.map_filter (\<lambda>e. e) es')) of
                  ((key, err2), dpa2) \<Rightarrow> (Done err2, ManifestTrie es' key, dpa2))
           | (r, es', dpa1) \<Rightarrow> (r, ManifestTrie es' None, dpa1)))"
| "recalcEntries dpa [] = (Done None, [], dpa)"
| "recalcEntries dpa (None # rest) =
     (case recalcEntries dpa rest of (r, rest', dpa') \<Rightarrow> (r, None # rest', dpa'))"
| "recalcEntries dpa (Some (entry, sub) # rest) =
     (if Hash entry = '''' then
        (case sub of
           None \<Rightarrow> (Panic, Some (entry, sub) # rest, dpa)
         | Some s \<Rightarrow>
             (case recalcAndStore dpa s of
                (Done None, s', dpa1) \<Rightarrow>
                  (let entry' = entry\<lparr>Hash := (case trieHash s' of Some key \<Rightarrow> key | None \<Rightarrow> '''')\<rparr>
                   in case recalcEntries dpa1 rest of
                        (r, rest', dpa2) \<Rightarrow> (r, Some (entry', Some s') # rest', dpa2))
              | (r, s', dpa1) \<Rightarrow> (r, Some (entry, Some s') # rest, dpa1)))
      else
        (case recalcEntries dpa rest of
           (r, rest', dpa') \<Rightarrow> (r, Some (entry, sub) # rest', dpa')))"
  by pat_completeness auto
termination
  by (relation "measure (\<lambda>x. case x of
        Inl (dpa, t) \<Rightarrow> size t
      | Inr (dpa, es) \<Rightarrow> size_list (size_option (size_prod (\<lambda>e. 0) (size_option size))) es)")
    auto

subsection \<open>Looking up\<close>

text \<open>\<open>strings.Contains\<close>: the second string occurs in the first.\<close>

fun Contains :: "string \<Rightarrow> string \<Rightarrow> bool" where
  "Contains [] substr = (substr = [])"
| "Contains (c # s) substr = (take (length substr) (c # s) = substr \<or> Contains s substr)"

text \<open>\<open>strings.HasPrefix\<close>: the first string starts with the second.\<close>

definition HasPrefix :: "string \<Rightarrow> string \<Rightarrow> bool" where
  "HasPrefix s pre = (take (length pre) s = pre)"

text \<open>The first sub-entry with an empty path, the loop over \<open>subentries\<close>.\<close>

definition emptyPathEntry :: "error + manifestTrie \<Rightarrow> manifestTrieEntry option" where
  "emptyPathEntry r =
     (case r of
        Inl err \<Rightarrow> None
      | Inr s \<Rightarrow>
          (case find (\<lambda>x. case x of Some (se, ssub) \<Rightarrow> Path se = [] | None \<Rightarrow> False) (entries s) of
             Some found \<Rightarrow> found
           | None \<Rightarrow> None))"

text \<open>
  \<open>findPrefixOf\<close> returns the entry, the length of the path consumed, and the trie as
  the call leaves it (sub-tries loaded, status fields set). The final naked
  \<open>return\<close> of the source hands back the entry of the slot and the outer \<open>pos\<close>,
  which is 0 unless it was assigned. The first argument of the body is the guard on
  descending into a sub-manifest, applied to the entry's path and the path looked up.
\<close>

definition findPrefixOfBody ::
  "(string \<Rightarrow> string \<Rightarrow> bool)
     \<Rightarrow> (manifestTrie \<Rightarrow> string \<Rightarrow> ((manifestTrieEntry option \<times> nat) \<times> manifestTrie) option)
     \<Rightarrow> (manifestTrieEntry \<Rightarrow> (ManifestEntry \<times> (error + manifestTrie)) option)
     \<Rightarrow> manifestTrie \<Rightarrow> string \<Rightarrow> ((manifestTrieEntry option \<times> nat) \<times> manifestTrie) option" where
  "findPrefixOfBody guard findPrefixOf' loadSubTrie' self path =
     (case path of
        [] \<Rightarrow> Some ((entries self ! 256, 0), self)
      | c # cs \<Rightarrow>
          (let b = of_char c in
           case entries self ! b of
             None \<Rightarrow> Some ((entries self ! 256, 0), self)
           | Some (entry, sub) \<Rightarrow>
               (let epl = length (Path entry) in
                if length path \<le> epl then
                  (if take (length path) (Path entry) = path then
                     (if ContentType entry = ManifestType then
                        (case loadSubTrie' (entry, sub) of
                           None \<Rightarrow> None
                         | Some (entry', r) \<Rightarrow>
                             (case emptyPathEntry r of
                                Some subentry \<Rightarrow>
                                  Some ((Some subentry, length path),
                                        setSlot self b (Some (entry', loaded r)))
                              | None \<Rightarrow>
                                  (let entry'' = entry'\<lparr>Status := StatusMultipleChoices\<rparr> in
                                   Some ((Some (entry'', loaded r), length path),
                                         setSlot self b (Some (entry'', loaded r))))))
                      else Some ((Some (entry, sub), length path), self))
                   else Some ((None, 0), self))
                else if take epl path = Path entry then
                  (if ContentType entry = ManifestType \<and> guard (Path entry) path then
                     (case loadSubTrie' (entry, sub) of
                        None \<Rightarrow> None
                      | Some (entry', Inl err) \<Rightarrow> Some ((None, 0), setSlot self b (Some (entry', None)))
                      | Some (entry', Inr subtrie) \<Rightarrow>
                          (case findPrefixOf' subtrie (drop epl path) of
                             None \<Rightarrow> None
                           | Some ((Some subentry, pos), subtrie') \<Rightarrow>
                               Some ((Some subentry, pos + epl),
                                     setSlot self b (Some (entry', Some subtrie')))
                           | Some ((None, pos), subtrie') \<Rightarrow>
                               (let entry'' = (if path = Path entry'
                                               then entry'\<lparr>Status := StatusMultipleChoices\<rparr>
                                               else entry') in
                                Some ((Some (entry'', Some subtrie'), 0),
                                      setSlot self b (Some (entry'', Some subtrie'))))))
                   else
                     (if path \<noteq> Path entry then Some ((None, 0), self)
                      else Some ((Some (entry, sub), epl), self)))
                else Some ((Some (entry, sub), 0), self))))"

text \<open>The guard of the source: one path contains the other.\<close>

definition containmentGuard :: "string \<Rightarrow> string \<Rightarrow> bool" where
  "containmentGuard entryPath path = (Contains entryPath path \<or> Contains path entryPath)"

fun findPrefixOf ::
  "nat \<Rightarrow> DPA \<Rightarrow> manifestTrie \<Rightarrow> string
     \<Rightarrow> ((manifestTrieEntry option \<times> nat) \<times> manifestTrie) option" where
  "findPrefixOf 0 dpa self path = None"
| "findPrefixOf (Suc n) dpa self path =
     findPrefixOfBody containmentGuard (\<lambda>trie p. findPrefixOf n dpa trie p) (loadSubTrie n dpa)
       self path"

text \<open>
  The variant of \<open>findPrefixOf\<close> that the specification describes: the same function
  with the containment guard replaced by the explicit test that the entry's path is a
  prefix of the path looked up.
\<close>

definition prefixGuard :: "string \<Rightarrow> string \<Rightarrow> bool" where
  "prefixGuard entryPath path = HasPrefix path entryPath"

fun findPrefixOf_prefixTest ::
  "nat \<Rightarrow> DPA \<Rightarrow> manifestTrie \<Rightarrow> string
     \<Rightarrow> ((manifestTrieEntry option \<times> nat) \<times> manifestTrie) option" where
  "findPrefixOf_prefixTest 0 dpa self path = None"
| "findPrefixOf_prefixTest (Suc n) dpa self path =
     findPrefixOfBody prefixGuard (\<lambda>trie p. findPrefixOf_prefixTest n dpa trie p)
       (loadSubTrie n dpa) self path"

section \<open>Example configurations\<close>

text \<open>
  Concrete chains, peers and managers on which the theorems below are instantiated.
  \<open>exChain present\<close> has, at every number that \<open>present\<close> accepts, the header
  \<open>exHeader\<close> of that number; its total difficulty at a number is that number times
  ten.
\<close>

definition exHeader :: "uint64 \<Rightarrow> header" where
  "exHeader n = \<lparr>hdrNumber = uint n, hdrParentHash = ucast n + 4095, hdrHash = ucast n + 4096,
     hdrReceiptHash = 0, hdrExtra = []\<rparr>"

definition exBlock :: "uint64 \<Rightarrow> block" where
  "exBlock n = \<lparr>blkHash = ucast n + 4096, blkParentHash = ucast n + 4095, blkNumberU64 = n,
     blkDifficulty = 10, ReceivedAt = 0, ReceivedFrom = None\<rparr>"

definition exChain :: "(uint64 \<Rightarrow> bool) \<Rightarrow> blockchain" where
  "exChain present =
     \<lparr>GetHeaderByHash = (\<lambda>h. if present (ucast (h - 4096)) \<and> ucast (ucast (h - 4096) :: uint64) = h - 4096
                              then Some (exHeader (ucast (h - 4096))) else None),
      GetHeaderByNumber = (\<lambda>n. if present n then Some (exHeader n) else None),
      GetHeader = (\<lambda>h n. if present n \<and> h = ucast n + 4096 then Some (exHeader n) else None),
      GetBlockHashesFromHash = (\<lambda>h m. []),
      GetTd = (\<lambda>h n. if present n \<and> h = ucast n + 4096 then Some (10 * uint n) else None),
      GetBlock = (\<lambda>h n. if present n \<and> h = ucast n + 4096 then Some (exBlock n) else None),
      HasBlock = (\<lambda>h n. present n \<and> h = ucast n + 4096),
      CurrentBlock = exBlock 200,
      GetBodyRLP = (\<lambda>h. []),
      TrieNode = (\<lambda>h. None),
      GetReceiptsByHash = (\<lambda>h. None)\<rparr>"

definition exEnv :: env where
  "exEnv =
     \<lparr>ProtocolMaxMsgSize = 10485760, MaxHeaderFetch = 192, MaxBlockFetch = 128,
      MaxStateFetch = 384, MaxReceiptFetch = 256, EmptyRootHash = 1,
      maxKnownBlocks = 1024, maxKnownTxs = 32768, maxQueuedProps = 4, maxQueuedAnns = 4,
      maxQueuedTxs = 128,
      FilterHeaders = (\<lambda>ident headers now. headers),
      VerifyDAOHeaderExtraData =
        (\<lambda>h. if hdrExtra h = [100, 97, 111] then None else Some (External ''bad DAO pro-fork extra-data'')),
      poolErrors = (\<lambda>txs. map (\<lambda>tx. Some (External ''known transaction'')) txs),
      InsertChain = (\<lambda>blocks bc. ((int (length blocks), None), bc)),
      EncodeReceipts = (\<lambda>r. Some []),
      ProtocolVersions = [63, 62]\<rparr>"

definition exPeer :: "string \<Rightarrow> peer" where
  "exPeer ident =
     \<lparr>pid = ident, version = 63, trusted = False, head = 4296, td = 2000, knownBlocks = [],
      knownTxs = [], forkDrop = False, queuedProps = [], queuedAnns = [], queuedTxs = [],
      sent = [], writeErr = None\<rparr>"

definition exManager :: "(uint64 \<Rightarrow> bool) \<Rightarrow> protocolManager" where
  "exManager present =
     \<lparr>networkId = 1, fastSync = 0, acceptTxs = 0, blockchain = exChain present,
      DAOForkBlock = Some 150, maxPeers = 25, peers = [], calls = [], warnings = []\<rparr>"

definition exTxs :: "nat \<Rightarrow> transaction list" where
  "exTxs n = map (\<lambda>i. \<lparr>txHash = of_nat i, txPayload = i\<rparr>) [1..<Suc n]"

definition exDaoHeader :: "8 word list \<Rightarrow> header" where
  "exDaoHeader extra = (exHeader 150)\<lparr>hdrExtra := extra\<rparr>"

definition exUDP :: "(nat \<Rightarrow> bool) UDPHandler" where
  "exUDP = \<lparr>verifier = None, broadcastInfoCh = [], poolBatches = []\<rparr>"

text \<open>
  Two readings of the verifier's check: one that dereferences its receiver, so that a
  call through nil panics, and one that answers no without a receiver.
\<close>

definition exDposTx :: "(nat \<Rightarrow> bool) option \<Rightarrow> nat \<Rightarrow> bool outcome" where
  "exDposTx v r = (case v of None \<Rightarrow> Panic | Some check \<Rightarrow> Done (check r))"

definition exDposTxNo :: "(nat \<Rightarrow> bool) option \<Rightarrow> nat \<Rightarrow> bool outcome" where
  "exDposTxNo v r = (case v of None \<Rightarrow> Done False | Some check \<Rightarrow> Done (check r))"

definition exPeers16 :: "peer list" where
  "exPeers16 =
     [exPeer ''p0'', exPeer ''p1'', exPeer ''p2'', exPeer ''p3'', exPeer ''p4'', exPeer ''p5'',
      exPeer ''p6'', exPeer ''p7'', exPeer ''p8'', exPeer ''p9'', exPeer ''p10'', exPeer ''p11'',
      exPeer ''p12'', exPeer ''p13'', exPeer ''p14'', exPeer ''p15'']"

subsection \<open>Example manifests\<close>


definition exLeaf :: "string \<Rightarrow> string \<Rightarrow> ManifestEntry" where
  "exLeaf p h = \<lparr>Hash = h, Path = p, ContentType = ''text/plain'', Mode = 420, EntrySize = 12,
     ModTime = 0, Status = 0\<rparr>"

definition exDir :: "string \<Rightarrow> ManifestEntry" where
  "exDir p = \<lparr>Hash = '''', Path = p, ContentType = ManifestType, Mode = 0, EntrySize = 0,
     ModTime = 0, Status = 0\<rparr>"

definition exSub :: manifestTrie where
  "exSub = ManifestTrie ((replicate 257 None)[98 := Some (exLeaf ''b'' ''f00d'', None)]) None"

definition exTrie :: manifestTrie where
  "exTrie = ManifestTrie ((replicate 257 None)[97 := Some (exDir ''a'', Some exSub)]) None"

definition exDPA :: DPA where
  "exDPA = \<lparr>chunks = (\<lambda>k. None), keyOf = (\<lambda>list. ''cafe''), storeErr = None\<rparr>"

text \<open>
  A store that holds, under the key \<open>''c0de''\<close>, a manifest whose one entry refers to a
  sub-manifest under the key \<open>''beef''\<close>, which the store does not have.
\<close>

definition exRootDPA :: DPA where
  "exRootDPA =
     \<lparr>chunks = (\<lambda>k. if k = ''c0de'' then Some (ManifestData [(exDir ''a'')\<lparr>Hash := ''beef''\<rparr>]) else None),
      keyOf = (\<lambda>list. ''cafe''), storeErr = None\<rparr>"


section \<open>Properties of the header query\<close>

subsection \<open>Word facts\<close>




subsection \<open>The number of iterations the loop guard leaves\<close>




subsection \<open>Number-based traversal towards the leaf\<close>










text \<open>
  C2. In by-number forward mode the origin is advanced by \<open>query.Origin.Number +=
  query.Skip + 1\<close> with no overflow check: from block 5 with skip \<open>2^64 - 1\<close> the sum
  wraps to 5 again, the traversal goes on and the same header is sent three times,
  with nothing logged. The hash-based forward traversal of the same loop does detect
  the overflow: it logs the attack and ends with the one header gathered.
\<close>

theorem getBlockHeaders_number_forward_overflow:
  "answerGetBlockHeaders (exChain (\<lambda>n. n = 5)) 192
     \<lparr>OriginHash = 0, OriginNumber = 5, Amount = 3, Skip = - 1, Reverse = False\<rparr> =
     Done ([exHeader 5, exHeader 5, exHeader 5], [])
   \<and> answerGetBlockHeaders (exChain (\<lambda>n. n = 5)) 192
     \<lparr>OriginHash = 4101, OriginNumber = 0, Amount = 3, Skip = - 1, Reverse = False\<rparr> =
     Done ([exHeader 5], [SkipOverflowAttack 5 (- 1) 5])"
  by (simp add: answerGetBlockHeaders_def gatherHeaders.simps advanceQuery_def exChain_def
      softResponseLimit_def estHeaderRlpSize_def Let_def exHeader_def Uint64_def)

section \<open>Properties of the message handlers\<close>

lemmas msgCodes = StatusMsg_def NewBlockHashesMsg_def TxMsg_def GetBlockHeadersMsg_def
  BlockHeadersMsg_def GetBlockBodiesMsg_def BlockBodiesMsg_def NewBlockMsg_def
  GetNodeDataMsg_def NodeDataMsg_def GetReceiptsMsg_def ReceiptsMsg_def

lemma handleMsg_Tx:
  "Code m = TxMsg \<Longrightarrow> Size m \<le> ProtocolMaxMsgSize env \<Longrightarrow>
   handleMsg env now (Inr m) pm p = handleTx env (Payload m) pm p"
  by (simp add: handleMsg_def msgCodes)

lemma handleMsg_NewBlock:
  "Code m = NewBlockMsg \<Longrightarrow> Size m \<le> ProtocolMaxMsgSize env \<Longrightarrow>
   handleMsg env now (Inr m) pm p = handleNewBlock env (msgReceivedAt m) (Payload m) pm p"
  by (simp add: handleMsg_def msgCodes)

lemma handleMsg_BlockHeaders:
  "Code m = BlockHeadersMsg \<Longrightarrow> Size m \<le> ProtocolMaxMsgSize env \<Longrightarrow>
   handleMsg env now (Inr m) pm p = handleBlockHeaders env now (Payload m) pm p"
  by (simp add: handleMsg_def msgCodes)

lemma markTransactions_all:
  "markTransactions env p (map Some txs) =
     (True, fold (\<lambda>tx q. MarkTransaction env q (txHash tx)) txs p)"
  by (induction txs arbitrary: p) simp_all

text \<open>
  C6. A Tx message that arrives while \<open>acceptTxs\<close> is 0 is dropped: the handler
  returns nil and neither the manager (so no call of \<open>AddRemotes\<close>) nor the peer
  changes, whatever the payload. With the flag set, for a batch that decodes to
  transactions (none of them nil) every transaction is marked on the peer, in order,
  the whole batch is handed to \<open>AddRemotes\<close> in one call and the handler returns nil:
  what the pool answers for the single transactions (\<open>poolErrors env\<close>, any function)
  has no influence on the result.
\<close>

theorem tx_message:
  assumes "Code m = TxMsg" and "Size m \<le> ProtocolMaxMsgSize env"
  shows "(acceptTxs pm = 0 \<longrightarrow> handleMsg env now (Inr m) pm p = (Done None, pm, p))
       \<and> (acceptTxs pm \<noteq> 0 \<and> Payload m = PTxs (map Some txs) \<longrightarrow>
            handleMsg env now (Inr m) pm p =
              (Done None, pm\<lparr>calls := calls pm @ [AddRemotes txs]\<rparr>,
               fold (\<lambda>tx q. MarkTransaction env q (txHash tx)) txs p))"
  unfolding handleMsg_Tx [OF assms]
  by (simp add: handleTx_def markTransactions_all comp_def)

theorem tx_message_witness:
  "handleMsg exEnv 0 (Inr \<lparr>Code = 2, Size = 100, msgReceivedAt = 0, Payload = PTxs (map Some (exTxs 10))\<rparr>)
      (exManager (\<lambda>n. True)) (exPeer ''a'') = (Done None, exManager (\<lambda>n. True), exPeer ''a'')
   \<and> handleMsg exEnv 0 (Inr \<lparr>Code = 2, Size = 100, msgReceivedAt = 0, Payload = PTxs (map Some (exTxs 2))\<rparr>)
      ((exManager (\<lambda>n. True))\<lparr>acceptTxs := 1\<rparr>) (exPeer ''a'') =
        (Done None, (exManager (\<lambda>n. True))\<lparr>acceptTxs := 1, calls := [AddRemotes (exTxs 2)]\<rparr>,
         (exPeer ''a'')\<lparr>knownTxs := [2, 1]\<rparr>)"
  using tx_message [of "\<lparr>Code = 2, Size = 100, msgReceivedAt = 0, Payload = PTxs (map Some (exTxs 10))\<rparr>"
           exEnv "exManager (\<lambda>n. True)" 0 "exPeer ''a''" "exTxs 10"]
        tx_message [of "\<lparr>Code = 2, Size = 100, msgReceivedAt = 0, Payload = PTxs (map Some (exTxs 2))\<rparr>"
           exEnv "(exManager (\<lambda>n. True))\<lparr>acceptTxs := 1\<rparr>" 0 "exPeer ''a''" "exTxs 2"]
  by (simp add: TxMsg_def exEnv_def exManager_def exPeer_def exTxs_def MarkTransaction_def
        markKnown_def upt_rec)

text \<open>
  C5, as the code has it. A decoded NewBlock message stamps the block with the receive
  time and the peer, marks its hash on the peer and enqueues it into the fetcher. The
  peer's head becomes (parent hash, \<open>td - difficulty\<close>) exactly when \<open>td - difficulty\<close>
  exceeds the total difficulty recorded for the peer so far, and a synchronise is
  started exactly when, in addition, \<open>td - difficulty\<close> exceeds the total difficulty of
  the local head block.
\<close>

theorem newBlock_message:
  assumes "Code m = NewBlockMsg" and "Size m \<le> ProtocolMaxMsgSize env"
    and "Payload m = PNewBlock blk TD"
    and "GetTd (blockchain pm) (blkHash (CurrentBlock (blockchain pm)))
           (blkNumberU64 (CurrentBlock (blockchain pm))) = Some localTd"
  shows "let request = blk\<lparr>ReceivedAt := msgReceivedAt m, ReceivedFrom := Some (pid p)\<rparr>;
             trueTD = TD - blkDifficulty blk;
             ahead = (trueTD > td p);
             sync = (ahead \<and> trueTD > localTd);
             marked = MarkBlock env p (blkHash blk)
         in handleMsg env now (Inr m) pm p =
              (Done None,
               pm\<lparr>calls := calls pm @ [FetcherEnqueue (pid p) request]
                               @ (if sync then [Synchronise (pid p)] else [])\<rparr>,
               if ahead then SetHead marked (blkParentHash blk) trueTD else marked)
            \<and> blkHash blk \<in> set (knownBlocks marked)"
  unfolding handleMsg_NewBlock [OF assms(1,2)]
  using assms(3,4)
  by (simp add: handleNewBlock_def Let_def MarkBlock_def markKnown_def)

theorem newBlock_message_witness:
  "handleMsg exEnv 0 (Inr \<lparr>Code = 7, Size = 100, msgReceivedAt = 9, Payload = PNewBlock (exBlock 201) 2500\<rparr>)
      (exManager (\<lambda>n. n \<le> 200)) (exPeer ''a'') =
     (Done None,
      (exManager (\<lambda>n. n \<le> 200))\<lparr>calls :=
         [FetcherEnqueue ''a'' ((exBlock 201)\<lparr>ReceivedAt := 9, ReceivedFrom := Some ''a''\<rparr>),
          Synchronise ''a'']\<rparr>,
      (exPeer ''a'')\<lparr>head := 4296, td := 2490, knownBlocks := [4297]\<rparr>)"
  using newBlock_message [of "\<lparr>Code = 7, Size = 100, msgReceivedAt = 9, Payload = PNewBlock (exBlock 201) 2500\<rparr>"
      exEnv "exBlock 201" 2500 "exManager (\<lambda>n. n \<le> 200)" 2000 "exPeer ''a''" 0]
  by (simp add: NewBlockMsg_def exEnv_def exManager_def exPeer_def exBlock_def exChain_def
      Let_def MarkBlock_def markKnown_def SetHead_def)

text \<open>
  C5 as stated fails: block 50 (difficulty 10) announced with total difficulty 2005 by a
  peer recorded at 2000. The announced value exceeds the local total difficulty of the
  parent plus the difficulty (490 + 10) and also that of the local head (2000), yet
  the head snapshot is left alone and no synchronise is started.
\<close>

theorem newBlock_head_counterexample:
  "2005 > the (GetTd (exChain (\<lambda>n. n \<le> 200)) (blkParentHash (exBlock 50)) (blkNumberU64 (exBlock 50) - 1))
            + blkDifficulty (exBlock 50)
   \<and> 2005 > the (GetTd (exChain (\<lambda>n. n \<le> 200)) (blkHash (CurrentBlock (exChain (\<lambda>n. n \<le> 200))))
                  (blkNumberU64 (CurrentBlock (exChain (\<lambda>n. n \<le> 200)))))
   \<and> handleNewBlock exEnv 9 (PNewBlock (exBlock 50) 2005) (exManager (\<lambda>n. n \<le> 200)) (exPeer ''a'') =
       (Done None,
        (exManager (\<lambda>n. n \<le> 200))\<lparr>calls :=
           [FetcherEnqueue ''a'' ((exBlock 50)\<lparr>ReceivedAt := 9, ReceivedFrom := Some ''a''\<rparr>)]\<rparr>,
        (exPeer ''a'')\<lparr>knownBlocks := [4146]\<rparr>)
   \<and> head (exPeer ''a'') \<noteq> blkParentHash (exBlock 50)"
  by (simp add: handleNewBlock_def exEnv_def exManager_def exPeer_def exBlock_def exChain_def
      Let_def MarkBlock_def markKnown_def SetHead_def)

text \<open>
  C4, as the code has it. While the fork-check timer is armed, a BlockHeaders reply
  with exactly one header whose number is the fork block number goes to the extra-data
  validation: the timer is cancelled and the handler returns what the validation
  returns, nil on pass and the error on fail. A single header with any other number is
  not validated: the handler returns nil whatever the header's extra-data, the manager
  changes only by the call of the fetcher's filter and, if the filter leaves
  something, the delivery of that to the downloader, and the peer is as it was, the
  timer still armed. An empty reply cancels the timer and keeps the peer when the local
  chain has no header at the fork number, or when the peer's total difficulty is below
  the local total difficulty at the fork block; otherwise it is delivered to the
  downloader as it is and the timer stays armed.
\<close>

theorem blockHeaders_fork_check:
  assumes "Code m = BlockHeadersMsg" and "Size m \<le> ProtocolMaxMsgSize env"
    and "forkDrop p" and "DAOForkBlock pm = Some dao"
  shows "(Payload m = PHeaders [h] \<and> hdrNumber h = dao \<longrightarrow>
            handleMsg env now (Inr m) pm p =
              (Done (VerifyDAOHeaderExtraData env h), pm, p\<lparr>forkDrop := False\<rparr>))
       \<and> (Payload m = PHeaders [h] \<and> hdrNumber h \<noteq> dao \<longrightarrow>
            handleMsg env now (Inr m) pm p =
              (Done None,
               pm\<lparr>calls := calls pm @ [FetcherFilterHeaders (pid p) [h] now]
                    @ (if FilterHeaders env (pid p) [h] now = [] then []
                       else [DeliverHeaders (pid p) (FilterHeaders env (pid p) [h] now)])\<rparr>,
               p)
            \<and> forkDrop (snd (snd (handleMsg env now (Inr m) pm p))))
       \<and> (Payload m = PHeaders [] \<and> GetHeaderByNumber (blockchain pm) (Uint64 dao) = None \<longrightarrow>
            handleMsg env now (Inr m) pm p = (Done None, pm, p\<lparr>forkDrop := False\<rparr>))
       \<and> (Payload m = PHeaders [] \<and> GetHeaderByNumber (blockchain pm) (Uint64 dao) = Some daoHeader
            \<and> GetTd (blockchain pm) (hdrHash daoHeader) (Uint64 (hdrNumber daoHeader)) = Some localTd
            \<longrightarrow> handleMsg env now (Inr m) pm p =
                 (if td p < localTd then (Done None, pm, p\<lparr>forkDrop := False\<rparr>)
                  else (Done None, pm\<lparr>calls := calls pm @ [DeliverHeaders (pid p) []]\<rparr>, p)))"
  unfolding handleMsg_BlockHeaders [OF assms(1,2)]
  using assms(3,4)
  by (auto simp: handleBlockHeaders_def filterHeaders_def verifyDAO_def deliverHeaders_def Let_def
       split: option.splits)

theorem blockHeaders_fork_check_witness:
  "handleMsg exEnv 0 (Inr \<lparr>Code = 4, Size = 600, msgReceivedAt = 0, Payload = PHeaders [exDaoHeader [100, 97, 111]]\<rparr>)
      (exManager (\<lambda>n. n \<le> 200)) ((exPeer ''a'')\<lparr>forkDrop := True\<rparr>) =
     (Done None, exManager (\<lambda>n. n \<le> 200), exPeer ''a'')
   \<and> handleMsg exEnv 0 (Inr \<lparr>Code = 4, Size = 600, msgReceivedAt = 0, Payload = PHeaders [exDaoHeader []]\<rparr>)
      (exManager (\<lambda>n. n \<le> 200)) ((exPeer ''a'')\<lparr>forkDrop := True\<rparr>) =
     (Done (Some (External ''bad DAO pro-fork extra-data'')), exManager (\<lambda>n. n \<le> 200), exPeer ''a'')
   \<and> handleMsg exEnv 0 (Inr \<lparr>Code = 4, Size = 1, msgReceivedAt = 0, Payload = PHeaders []\<rparr>)
      (exManager (\<lambda>n. n \<le> 200)) ((exPeer ''a'')\<lparr>forkDrop := True, td := 1499\<rparr>) =
     (Done None, exManager (\<lambda>n. n \<le> 200), (exPeer ''a'')\<lparr>td := 1499\<rparr>)
   \<and> handleMsg exEnv 5 (Inr \<lparr>Code = 4, Size = 600, msgReceivedAt = 0, Payload = PHeaders [exHeader 151]\<rparr>)
      (exManager (\<lambda>n. n \<le> 200)) ((exPeer ''a'')\<lparr>forkDrop := True\<rparr>) =
     (Done None,
      (exManager (\<lambda>n. n \<le> 200))\<lparr>calls :=
         [FetcherFilterHeaders ''a'' [exHeader 151] 5, DeliverHeaders ''a'' [exHeader 151]]\<rparr>,
      (exPeer ''a'')\<lparr>forkDrop := True\<rparr>)"
  using blockHeaders_fork_check [of "\<lparr>Code = 4, Size = 600, msgReceivedAt = 0, Payload = PHeaders [exDaoHeader [100, 97, 111]]\<rparr>"
      exEnv "(exPeer ''a'')\<lparr>forkDrop := True\<rparr>" "exManager (\<lambda>n. n \<le> 200)" 150 "exDaoHeader [100, 97, 111]" 0 "exHeader 150" 1500]
    blockHeaders_fork_check [of "\<lparr>Code = 4, Size = 600, msgReceivedAt = 0, Payload = PHeaders [exDaoHeader []]\<rparr>"
      exEnv "(exPeer ''a'')\<lparr>forkDrop := True\<rparr>" "exManager (\<lambda>n. n \<le> 200)" 150 "exDaoHeader []" 0 "exHeader 150" 1500]
    blockHeaders_fork_check [of "\<lparr>Code = 4, Size = 1, msgReceivedAt = 0, Payload = PHeaders []\<rparr>"
      exEnv "(exPeer ''a'')\<lparr>forkDrop := True, td := 1499\<rparr>" "exManager (\<lambda>n. n \<le> 200)" 150 "exHeader 150" 0 "exHeader 150" 1500]
    blockHeaders_fork_check [of "\<lparr>Code = 4, Size = 600, msgReceivedAt = 0, Payload = PHeaders [exHeader 151]\<rparr>"
      exEnv "(exPeer ''a'')\<lparr>forkDrop := True\<rparr>" "exManager (\<lambda>n. n \<le> 200)" 150 "exHeader 151" 5 "exHeader 150" 1500]
  by (simp add: BlockHeadersMsg_def exEnv_def exManager_def exPeer_def exDaoHeader_def
       exHeader_def exChain_def Uint64_def)

text \<open>
  C4 as stated fails: with the timer armed and the fork block at 150, a reply with the
  single header of number 7, whose extra-data the fork rule rejects, is not validated.
  The handler returns nil, the header goes to the fetcher and the downloader and the
  timer stays armed.
\<close>

theorem blockHeaders_single_counterexample:
  "VerifyDAOHeaderExtraData exEnv (exHeader 7) \<noteq> None
   \<and> handleMsg exEnv 0 (Inr \<lparr>Code = 4, Size = 600, msgReceivedAt = 0, Payload = PHeaders [exHeader 7]\<rparr>)
      (exManager (\<lambda>n. n \<le> 200)) ((exPeer ''a'')\<lparr>forkDrop := True\<rparr>) =
     (Done None,
      (exManager (\<lambda>n. n \<le> 200))\<lparr>calls :=
         [FetcherFilterHeaders ''a'' [exHeader 7] 0, DeliverHeaders ''a'' [exHeader 7]]\<rparr>,
      (exPeer ''a'')\<lparr>forkDrop := True\<rparr>)"
  by (simp add: handleMsg_def msgCodes handleBlockHeaders_def filterHeaders_def deliverHeaders_def
       exEnv_def exManager_def exPeer_def exHeader_def Let_def)

text \<open>
  C7, as the code has it. Before a verifier is installed (the pointer is nil) a
  datagram whose envelope or payload does not unmarshal is rejected with an error and
  nothing is forwarded. A consensus result (type 1) that unmarshals is decided by what
  the verifier's \<open>DposTx\<close> does when called through the nil pointer: a panic ends the
  handler, a negative verdict rejects the datagram with an error, and in both cases
  nothing reaches the pool; only a positive verdict would forward the transactions. A
  broadcast roster (type 2) is never checked against the verifier: with room in the
  miner's channel it is sent there and nil is returned, and while the one-slot channel
  is full the handler blocks on the send, returning nothing. A datagram of an unknown
  type is discarded and nil is returned. No datagram of a type other than 1 brings
  anything to the pool.
\<close>

theorem udp_without_verifier:
  assumes "verifier h = None"
  shows "AddUDPMsg dposTx None h = (Finished (Done (Some (ErrResp ErrVerify))), h)
       \<and> (MsgType vm = 1 \<and> asConsensusResult (Data vm) = None \<longrightarrow>
            AddUDPMsg dposTx (Some vm) h = (Finished (Done (Some (ErrResp ErrVerify))), h))
       \<and> (MsgType vm = 1 \<and> asConsensusResult (Data vm) = Some txData \<longrightarrow>
            AddUDPMsg dposTx (Some vm) h =
              (case dposTx None (Result txData) of
                 Panic \<Rightarrow> (Finished Panic, h)
               | Done False \<Rightarrow> (Finished (Done (Some (ErrResp ErrVerify))), h)
               | Done True \<Rightarrow>
                   (Finished (Done None),
                    if Txs txData = [] then h
                    else h\<lparr>poolBatches := poolBatches h @ [Txs txData]\<rparr>)))
       \<and> (MsgType vm = 2 \<and> asNodeList (Data vm) = None \<longrightarrow>
            AddUDPMsg dposTx (Some vm) h = (Finished (Done (Some (ErrResp ErrVerify))), h))
       \<and> (MsgType vm = 2 \<and> asNodeList (Data vm) = Some nodeList \<longrightarrow>
            AddUDPMsg dposTx (Some vm) h =
              (if broadcastInfoCh h = []
               then (Finished (Done None), h\<lparr>broadcastInfoCh := [(nodeList, BlockNum vm)]\<rparr>)
               else (Blocked, h)))
       \<and> (MsgType vm \<noteq> 1 \<and> MsgType vm \<noteq> 2 \<longrightarrow>
            AddUDPMsg dposTx (Some vm) h = (Finished (Done None), h))
       \<and> (MsgType vm \<noteq> 1 \<longrightarrow> poolBatches (snd (AddUDPMsg dposTx (Some vm) h)) = poolBatches h)"
  using assms
  by (auto simp: AddUDPMsg_def verifyError_def chanSend_def broadcastInfoCap_def
       split: option.splits outcome.splits bool.splits)

theorem udp_without_verifier_witness:
  "AddUDPMsg exDposTx None exUDP = (Finished (Done (Some (ErrResp ErrVerify))), exUDP)
   \<and> AddUDPMsg exDposTx (Some \<lparr>BlockNum = 7, MsgType = 1,
         Data = \<lparr>asConsensusResult = Some \<lparr>Result = 9, Txs = exTxs 2\<rparr>, asNodeList = None\<rparr>\<rparr>) exUDP =
       (Finished Panic, exUDP)
   \<and> AddUDPMsg exDposTxNo (Some \<lparr>BlockNum = 7, MsgType = 1,
         Data = \<lparr>asConsensusResult = Some \<lparr>Result = 9, Txs = exTxs 2\<rparr>, asNodeList = None\<rparr>\<rparr>) exUDP =
       (Finished (Done (Some (ErrResp ErrVerify))), exUDP)
   \<and> AddUDPMsg exDposTx (Some \<lparr>BlockNum = 8, MsgType = 2,
         Data = \<lparr>asConsensusResult = None, asNodeList = Some [4, 5]\<rparr>\<rparr>)
       (exUDP\<lparr>broadcastInfoCh := [([1, 2, 3], 7)]\<rparr>) =
       (Blocked, exUDP\<lparr>broadcastInfoCh := [([1, 2, 3], 7)]\<rparr>)
   \<and> AddUDPMsg exDposTx (Some \<lparr>BlockNum = 7, MsgType = 3,
         Data = \<lparr>asConsensusResult = None, asNodeList = None\<rparr>\<rparr>) exUDP = (Finished (Done None), exUDP)"
  using udp_without_verifier [of exUDP exDposTx
      "\<lparr>BlockNum = 7, MsgType = 1,
         Data = \<lparr>asConsensusResult = Some \<lparr>Result = 9, Txs = exTxs 2\<rparr>, asNodeList = None\<rparr>\<rparr>"
      "\<lparr>Result = 9, Txs = exTxs 2\<rparr>" "[]"]
    udp_without_verifier [of exUDP exDposTxNo
      "\<lparr>BlockNum = 7, MsgType = 1,
         Data = \<lparr>asConsensusResult = Some \<lparr>Result = 9, Txs = exTxs 2\<rparr>, asNodeList = None\<rparr>\<rparr>"
      "\<lparr>Result = 9, Txs = exTxs 2\<rparr>" "[]"]
    udp_without_verifier [of "exUDP\<lparr>broadcastInfoCh := [([1, 2, 3], 7)]\<rparr>" exDposTx
      "\<lparr>BlockNum = 8, MsgType = 2, Data = \<lparr>asConsensusResult = None, asNodeList = Some [4, 5]\<rparr>\<rparr>"
      "\<lparr>Result = 9, Txs = []\<rparr>" "[4, 5]"]
    udp_without_verifier [of exUDP exDposTx
      "\<lparr>BlockNum = 7, MsgType = 3, Data = \<lparr>asConsensusResult = None, asNodeList = None\<rparr>\<rparr>"
      "\<lparr>Result = 9, Txs = []\<rparr>" "[]"]
  by (simp add: exUDP_def exDposTx_def exDposTxNo_def)

text \<open>
  C7 as stated fails: with no verifier installed a type-2 datagram is accepted, its
  roster reaches the miner's channel and the handler returns nil; a datagram of an
  unknown type is discarded with nil, not with an error.
\<close>

theorem udp_roster_counterexample:
  "verifier exUDP = None
   \<and> AddUDPMsg exDposTx (Some \<lparr>BlockNum = 7, MsgType = 2,
         Data = \<lparr>asConsensusResult = None, asNodeList = Some [1, 2, 3]\<rparr>\<rparr>) exUDP =
       (Finished (Done None), exUDP\<lparr>broadcastInfoCh := [([1, 2, 3], 7)]\<rparr>)
   \<and> AddUDPMsg exDposTx (Some \<lparr>BlockNum = 7, MsgType = 3,
         Data = \<lparr>asConsensusResult = None, asNodeList = None\<rparr>\<rparr>) exUDP =
       (Finished (Done None), exUDP)"
  by (simp add: AddUDPMsg_def exUDP_def chanSend_def broadcastInfoCap_def)

section \<open>Properties of the mined-block broadcast\<close>

lemma sqrtFrom_spec:
  "r * r \<le> n \<Longrightarrow> sqrtFrom n r * sqrtFrom n r \<le> n \<and> n < (sqrtFrom n r + 1) * (sqrtFrom n r + 1)"
proof (induction n r rule: sqrtFrom.induct)
  case (1 n r)
  show ?case
  proof (cases "(r + 1) * (r + 1) \<le> n")
    case True
    then have "sqrtFrom n r = sqrtFrom n (r + 1)" by (subst sqrtFrom.simps) simp
    with "1.IH" [OF True True] show ?thesis by simp
  next
    case False
    then have "sqrtFrom n r = r" by (subst sqrtFrom.simps) simp
    with False "1.prems" show ?thesis by simp
  qed
qed

lemma intSqrt_spec: "intSqrt n * intSqrt n \<le> n \<and> n < (intSqrt n + 1) * (intSqrt n + 1)"
  unfolding intSqrt_def by (rule sqrtFrom_spec) simp

lemma intSqrt_le: "intSqrt n \<le> n"
proof -
  have "intSqrt n \<le> intSqrt n * intSqrt n" by (cases "intSqrt n") simp_all
  with intSqrt_spec [of n] show ?thesis by linarith
qed

lemma forEachPeer_length [simp]: "length (forEachPeer ptrs f ps) = length ps"
  unfolding forEachPeer_def by (induction ptrs arbitrary: ps) simp_all

lemma forEachPeer_nth:
  "distinct ptrs \<Longrightarrow> j < length ps \<Longrightarrow>
   forEachPeer ptrs f ps ! j = (if j \<in> set ptrs then f (ps ! j) else ps ! j)"
  unfolding forEachPeer_def
proof (induction ptrs arbitrary: ps)
  case Nil
  then show ?case by simp
next
  case (Cons i ptrs)
  have "fold (\<lambda>i qs. qs[i := f (qs ! i)]) ptrs (ps[i := f (ps ! i)]) ! j =
      (if j \<in> set ptrs then f (ps[i := f (ps ! i)] ! j) else ps[i := f (ps ! i)] ! j)"
    using Cons.prems by (intro Cons.IH) simp_all
  moreover have "ps[i := f (ps ! i)] ! j = ps ! j" if "j \<in> set ptrs"
  proof -
    from that Cons.prems(1) have "i \<noteq> j" by auto
    then show ?thesis by simp
  qed
  ultimately show ?case
    using Cons.prems by (auto simp: nth_list_update)
qed

lemma forEachPeer_map:
  "distinct ptrs \<Longrightarrow>
   forEachPeer ptrs f ps = map (\<lambda>j. if j \<in> set ptrs then f (ps ! j) else ps ! j) [0..<length ps]"
  by (rule nth_equalityI) (simp_all add: forEachPeer_nth)

lemma PeersWithoutBlock_distinct [simp]: "distinct (PeersWithoutBlock ps h)"
  by (simp add: PeersWithoutBlock_def)

lemma PeersWithoutBlock_set:
  "set (PeersWithoutBlock ps h) = {i. i < length ps \<and> h \<notin> set (knownBlocks (ps ! i))}"
  by (auto simp: PeersWithoutBlock_def)

lemma markKnown_known: "h \<in> set (markKnown bound h ks)"
  by (simp add: markKnown_def)

lemma AsyncSendNewBlock_known: "blkHash b \<in> set (knownBlocks (AsyncSendNewBlock env b d p))"
  by (simp add: AsyncSendNewBlock_def MarkBlock_def markKnown_known)

lemma filter_not_in_take:
  "distinct l \<Longrightarrow> filter (\<lambda>i. i \<notin> set (take k l)) l = drop k l"
proof (induction l arbitrary: k)
  case Nil
  then show ?case by simp
next
  case (Cons x xs)
  show ?case
  proof (cases k)
    case 0
    then show ?thesis by simp
  next
    case (Suc k')
    have "filter (\<lambda>i. i \<noteq> x \<and> i \<notin> set (take k' xs)) xs = filter (\<lambda>i. i \<notin> set (take k' xs)) xs"
      using Cons.prems by (intro filter_cong) auto
    also have "\<dots> = drop k' xs"
      using Cons.prems by (intro Cons.IH) simp
    finally show ?thesis using Suc by simp
  qed
qed

lemma PeersWithoutBlock_after:
  assumes "\<And>p. h \<in> set (knownBlocks (f p))"
  shows "PeersWithoutBlock (forEachPeer (take k (PeersWithoutBlock ps h)) f ps) h =
         drop k (PeersWithoutBlock ps h)"
proof -
  let ?l = "PeersWithoutBlock ps h"
  have d: "distinct (take k ?l)" by simp
  have "PeersWithoutBlock (forEachPeer (take k ?l) f ps) h =
      filter (\<lambda>i. h \<notin> set (knownBlocks (ps ! i)) \<and> i \<notin> set (take k ?l)) [0..<length ps]"
    unfolding PeersWithoutBlock_def [of "forEachPeer (take k ?l) f ps"]
    by (simp only: forEachPeer_length, rule filter_cong) (auto simp: forEachPeer_nth [OF d] assms)
  also have "\<dots> = filter (\<lambda>i. i \<notin> set (take k ?l)) (filter (\<lambda>i. h \<notin> set (knownBlocks (ps ! i))) [0..<length ps])"
    by (simp only: filter_filter conj_commute)
  also have "\<dots> = filter (\<lambda>i. i \<notin> set (take k ?l)) ?l"
    by (simp only: PeersWithoutBlock_def)
  also have "\<dots> = drop k ?l"
    by (rule filter_not_in_take) simp
  finally show ?thesis .
qed


lemma take_drop_disjoint: "distinct l \<Longrightarrow> set (take k l) \<inter> set (drop k l) = {}"
  by (metis append_take_drop_id distinct_append)

text \<open>
  C3, as the code has it. For a mined block whose parent is in the local chain (with
  its total difficulty), the event is handled in two passes. The first sends the block
  with total difficulty \<open>difficulty + parent's total difficulty\<close> to the first
  \<open>isqrt n\<close> of the \<open>n\<close> peers that lack it, where \<open>isqrt n\<close> is the integer
  square root. The second, run after the first, announces the block to the other
  \<open>n - isqrt n\<close> peers that lack it, and only if the block is in the local chain;
  the peers that got the block are not announced to, and every other peer is left as
  it was.
\<close>

theorem mined_block_broadcast:
  assumes "GetBlock (blockchain pm) (blkParentHash b) (blkNumberU64 b - 1) = Some parent"
    and "GetTd (blockchain pm) (blkParentHash b) (blkNumberU64 b - 1) = Some parentTd"
  shows "let lacking = PeersWithoutBlock (peers pm) (blkHash b);
             n = length lacking;
             transfer = take (intSqrt n) lacking;
             rest = drop (intSqrt n) lacking;
             inChain = HasBlock (blockchain pm) (blkHash b) (blkNumberU64 b)
         in minedBroadcast env b pm =
              Done (pm\<lparr>peers :=
                map (\<lambda>i. if i \<in> set transfer
                            then AsyncSendNewBlock env b (blkDifficulty b + parentTd) (peers pm ! i)
                          else if inChain \<and> i \<in> set rest
                            then AsyncSendNewBlockHash env b (peers pm ! i)
                          else peers pm ! i)
                    [0..<length (peers pm)]\<rparr>)
            \<and> length transfer = intSqrt n
            \<and> intSqrt n * intSqrt n \<le> n \<and> n < (intSqrt n + 1) * (intSqrt n + 1)
            \<and> length rest = n - intSqrt n
            \<and> set transfer \<inter> set rest = {}"
proof -
  define ps where "ps = peers pm"
  define lacking where "lacking = PeersWithoutBlock ps (blkHash b)"
  define k where "k = intSqrt (length lacking)"
  define f where "f = AsyncSendNewBlock env b (blkDifficulty b + parentTd)"
  define g where "g = AsyncSendNewBlockHash env b"
  define ps1 where "ps1 = forEachPeer (take k lacking) f ps"
  define pm1 where "pm1 = pm\<lparr>peers := ps1\<rparr>"
  have dl: "distinct lacking" by (simp add: lacking_def)
  have disj: "set (take k lacking) \<inter> set (drop k lacking) = {}"
    using dl by (rule take_drop_disjoint)
  have pass1: "BroadcastBlock env b True pm = Done pm1"
    by (simp add: BroadcastBlock_def assms Let_def pm1_def ps1_def f_def k_def lacking_def ps_def)
  have lack1: "PeersWithoutBlock ps1 (blkHash b) = drop k lacking"
    unfolding ps1_def lacking_def
    by (rule PeersWithoutBlock_after) (simp add: f_def AsyncSendNewBlock_known)
  have pass2: "BroadcastBlock env b False pm1 =
      Done (if HasBlock (blockchain pm) (blkHash b) (blkNumberU64 b)
            then pm\<lparr>peers := forEachPeer (drop k lacking) g ps1\<rparr> else pm1)"
    by (simp add: BroadcastBlock_def Let_def pm1_def lack1 g_def)
  have ps1_nth: "ps1 ! i = (if i \<in> set (take k lacking) then f (ps ! i) else ps ! i)"
    if "i < length ps" for i
    unfolding ps1_def using that by (simp add: forEachPeer_nth dl)
  have ps1_map: "ps1 = map (\<lambda>i. if i \<in> set (take k lacking) then f (ps ! i) else ps ! i) [0..<length ps]"
    unfolding ps1_def by (rule forEachPeer_map) (simp add: dl)
  have ps2_map: "forEachPeer (drop k lacking) g ps1 =
      map (\<lambda>i. if i \<in> set (take k lacking) then f (ps ! i)
                else if i \<in> set (drop k lacking) then g (ps ! i) else ps ! i) [0..<length ps]"
  proof (rule nth_equalityI)
    show "length (forEachPeer (drop k lacking) g ps1) = length (map (\<lambda>i. if i \<in> set (take k lacking) then f (ps ! i)
                else if i \<in> set (drop k lacking) then g (ps ! i) else ps ! i) [0..<length ps])"
      by (simp add: ps1_def)
  next
    fix i assume "i < length (forEachPeer (drop k lacking) g ps1)"
    then have i: "i < length ps" by (simp add: ps1_def)
    then have i1: "i < length ps1" by (simp add: ps1_def)
    have "forEachPeer (drop k lacking) g ps1 ! i =
        (if i \<in> set (drop k lacking) then g (ps1 ! i) else ps1 ! i)"
      using i1 by (simp add: forEachPeer_nth dl)
    then show "forEachPeer (drop k lacking) g ps1 ! i =
       map (\<lambda>i. if i \<in> set (take k lacking) then f (ps ! i)
                else if i \<in> set (drop k lacking) then g (ps ! i) else ps ! i) [0..<length ps] ! i"
      using i disj by (auto simp: ps1_nth)
  qed
  have run: "minedBroadcast env b pm =
      Done (pm\<lparr>peers := map (\<lambda>i. if i \<in> set (take k lacking) then f (ps ! i)
                else if HasBlock (blockchain pm) (blkHash b) (blkNumberU64 b) \<and> i \<in> set (drop k lacking)
                  then g (ps ! i) else ps ! i) [0..<length ps]\<rparr>)"
  proof (cases "HasBlock (blockchain pm) (blkHash b) (blkNumberU64 b)")
    case True
    then show ?thesis
      unfolding minedBroadcast_def pass1 outcome.case pass2 by (simp add: ps2_map)
  next
    case False
    then show ?thesis
      unfolding minedBroadcast_def pass1 outcome.case pass2 by (simp add: pm1_def ps1_map)
  qed
  have kle: "k \<le> length lacking" unfolding k_def by (rule intSqrt_le)
  show ?thesis
    unfolding Let_def
    using run kle disj intSqrt_spec [of "length lacking"]
    by (simp add: ps_def lacking_def k_def f_def g_def)
qed

lemma intSqrt_16: "intSqrt 16 = 4"
  by (simp add: intSqrt_def sqrtFrom.simps)

lemma lacking_16: "PeersWithoutBlock exPeers16 h = [0,1,2,3,4,5,6,7,8,9,10,11,12,13,14,15]"
  by (simp add: PeersWithoutBlock_def exPeers16_def exPeer_def upt_rec)

lemma exManager_sel:
  "blockchain ((exManager present)\<lparr>peers := ps\<rparr>) = exChain present"
  "peers ((exManager present)\<lparr>peers := ps\<rparr>) = ps"
  by (simp_all add: exManager_def)

lemma exChain_201:
  "GetBlock (exChain (\<lambda>n. n \<le> 201)) (blkParentHash (exBlock 201)) (blkNumberU64 (exBlock 201) - 1) = Some (exBlock 200)"
  "GetTd (exChain (\<lambda>n. n \<le> 201)) (blkParentHash (exBlock 201)) (blkNumberU64 (exBlock 201) - 1) = Some 2000"
  "HasBlock (exChain (\<lambda>n. n \<le> 201)) (blkHash (exBlock 201)) (blkNumberU64 (exBlock 201))"
  "blkDifficulty (exBlock 201) = 10"
  by (simp_all add: exChain_def exBlock_def)

lemma l16: "length [0,1,2,3,4,5,6,7,8,9,10,11,12,13,14,15::nat] = 16"
  by simp

lemma tk: "take (intSqrt 16) [0,1,2,3,4,5,6,7,8,9,10,11,12,13,14,15::nat] = [0,1,2,3]"
  by (simp add: intSqrt_16)

lemma dr: "drop (intSqrt 16) [0,1,2,3,4,5,6,7,8,9,10,11,12,13,14,15::nat] = [4,5,6,7,8,9,10,11,12,13,14,15]"
  by (simp add: intSqrt_16)

lemma stepB:
  "map (\<lambda>i. if i \<in> set (take (intSqrt (length (PeersWithoutBlock exPeers16 (blkHash (exBlock 201)))))
                             (PeersWithoutBlock exPeers16 (blkHash (exBlock 201))))
             then AsyncSendNewBlock exEnv (exBlock 201) (blkDifficulty (exBlock 201) + 2000) (exPeers16 ! i)
             else if HasBlock (exChain (\<lambda>n. n \<le> 201)) (blkHash (exBlock 201)) (blkNumberU64 (exBlock 201)) \<and>
                     i \<in> set (drop (intSqrt (length (PeersWithoutBlock exPeers16 (blkHash (exBlock 201)))))
                             (PeersWithoutBlock exPeers16 (blkHash (exBlock 201))))
                  then AsyncSendNewBlockHash exEnv (exBlock 201) (exPeers16 ! i)
                  else exPeers16 ! i)
       [0..<length exPeers16] =
   map (AsyncSendNewBlock exEnv (exBlock 201) 2010) (take 4 exPeers16)
        @ map (AsyncSendNewBlockHash exEnv (exBlock 201)) (drop 4 exPeers16)"
proof -
  have len: "length exPeers16 = 16" by (simp add: exPeers16_def)
  have idx: "[0..<16] = [0,1,2,3,4,5,6,7,8,9,10,11,12,13,14,15::nat]" by (simp add: upt_rec)
  have sum: "(10::int) + 2000 = 2010" by simp
  show ?thesis
    unfolding lacking_16 l16 tk dr len idx exChain_201(4) sum
    by (simp add: exPeers16_def exChain_201(3))
qed


text \<open>
  The scenario of the specification: sixteen peers, none of which knows the new block
  201. The first four get the block with total difficulty 2010, the other twelve the
  announcement.
\<close>

theorem mined_block_broadcast_witness:
  "minedBroadcast exEnv (exBlock 201) ((exManager (\<lambda>n. n \<le> 201))\<lparr>peers := exPeers16\<rparr>) =
     Done ((exManager (\<lambda>n. n \<le> 201))\<lparr>peers :=
        map (AsyncSendNewBlock exEnv (exBlock 201) 2010) (take 4 exPeers16)
        @ map (AsyncSendNewBlockHash exEnv (exBlock 201)) (drop 4 exPeers16)\<rparr>)"
proof -
  have gb: "GetBlock (blockchain ((exManager (\<lambda>n. n \<le> 201))\<lparr>peers := exPeers16\<rparr>))
       (blkParentHash (exBlock 201)) (blkNumberU64 (exBlock 201) - 1) = Some (exBlock 200)"
    by (simp only: exManager_sel exChain_201)
  have gt: "GetTd (blockchain ((exManager (\<lambda>n. n \<le> 201))\<lparr>peers := exPeers16\<rparr>))
       (blkParentHash (exBlock 201)) (blkNumberU64 (exBlock 201) - 1) = Some 2000"
    by (simp only: exManager_sel exChain_201)
  note inst = mined_block_broadcast [OF gb gt, of exEnv, unfolded Let_def exManager_sel stepB,
      THEN conjunct1]
  show ?thesis
    unfolding inst by simp
qed


lemma exChain_300:
  "GetBlock (exChain (\<lambda>n. n \<le> 200 \<or> n = 300)) 4395 299 = None"
  "HasBlock (exChain (\<lambda>n. n \<le> 200 \<or> n = 300)) 4396 300"
  "blkHash (exBlock 300) = 4396" "blkNumberU64 (exBlock 300) = 300"
  "blkParentHash (exBlock 300) = 4395"
  by (simp_all add: exChain_def exBlock_def)

lemma announce_all_16:
  "forEachPeer (PeersWithoutBlock exPeers16 h) g exPeers16 = map g exPeers16"
  unfolding lacking_16 by (simp add: forEachPeer_def exPeers16_def)

lemma exManager_sel2:
  "blockchain ((exManager present)\<lparr>peers := ps, warnings := w\<rparr>) = exChain present"
  "peers ((exManager present)\<lparr>peers := ps, warnings := w\<rparr>) = ps"
  "warnings ((exManager present)\<lparr>peers := ps\<rparr>) = []"
  by (simp_all add: exManager_def)

text \<open>
  C3 as stated fails: sixteen peers, none of which knows block 300, whose parent is not
  in the local chain while the block itself is. The integer square root of 16 is 4,
  but the propagate pass logs a dangling block and sends the block to nobody; the
  announce pass then announces to all sixteen.
\<close>

theorem mined_block_dangling_counterexample:
  "length (PeersWithoutBlock exPeers16 (blkHash (exBlock 300))) = 16
   \<and> intSqrt 16 = 4
   \<and> HasBlock (exChain (\<lambda>n. n \<le> 200 \<or> n = 300)) (blkHash (exBlock 300)) (blkNumberU64 (exBlock 300))
   \<and> minedBroadcast exEnv (exBlock 300) ((exManager (\<lambda>n. n \<le> 200 \<or> n = 300))\<lparr>peers := exPeers16\<rparr>) =
       Done ((exManager (\<lambda>n. n \<le> 200 \<or> n = 300))\<lparr>
          peers := map (AsyncSendNewBlockHash exEnv (exBlock 300)) exPeers16,
          warnings := [PropagatingDanglingBlock 300 4396]\<rparr>)"
proof -
  let ?pm = "(exManager (\<lambda>n. n \<le> 200 \<or> n = 300))\<lparr>peers := exPeers16\<rparr>"
  have p1: "BroadcastBlock exEnv (exBlock 300) True ?pm =
      Done (?pm\<lparr>warnings := [PropagatingDanglingBlock 300 4396]\<rparr>)"
    by (simp add: BroadcastBlock_def Let_def exManager_sel exManager_sel2 exChain_300)
  have p2: "BroadcastBlock exEnv (exBlock 300) False (?pm\<lparr>warnings := [PropagatingDanglingBlock 300 4396]\<rparr>) =
      Done (?pm\<lparr>warnings := [PropagatingDanglingBlock 300 4396],
               peers := map (AsyncSendNewBlockHash exEnv (exBlock 300)) exPeers16\<rparr>)"
    by (simp add: BroadcastBlock_def Let_def exManager_sel2 exChain_300 announce_all_16)
  have run: "minedBroadcast exEnv (exBlock 300) ?pm =
      Done (?pm\<lparr>warnings := [PropagatingDanglingBlock 300 4396],
               peers := map (AsyncSendNewBlockHash exEnv (exBlock 300)) exPeers16\<rparr>)"
    unfolding minedBroadcast_def p1 outcome.case p2 ..
  show ?thesis
    unfolding run by (simp add: lacking_16 intSqrt_16 exChain_300)
qed

section \<open>Properties of the manifest trie\<close>

subsection \<open>The guard of findPrefixOf\<close>

lemma Contains_prefix: "take (length pre) s = pre \<Longrightarrow> Contains s pre"
  by (cases s) auto

lemma containmentGuard_prefix: "take (length ep) path = ep \<Longrightarrow> containmentGuard ep path"
  by (simp add: containmentGuard_def Contains_prefix)

lemma prefixGuard_prefix: "take (length ep) path = ep \<Longrightarrow> prefixGuard ep path"
  by (simp add: prefixGuard_def HasPrefix_def)

lemma findPrefixOfBody_guards:
  assumes "\<And>t p. f t p = g t p"
  shows "findPrefixOfBody containmentGuard f load self path =
         findPrefixOfBody prefixGuard g load self path"
proof (cases path)
  case Nil
  then show ?thesis by (simp add: findPrefixOfBody_def)
next
  case (Cons c cs)
  have fg: "f = g" by (intro ext) (rule assms)
  show ?thesis
  proof (cases "entries self ! of_char c")
    case None
    with Cons show ?thesis by (simp add: findPrefixOfBody_def)
  next
    case (Some e)
    obtain entry sub where e: "e = (entry, sub)" by (cases e)
    show ?thesis
    proof (cases "take (length (Path entry)) path = Path entry")
      case True
      then have "containmentGuard (Path entry) path" "prefixGuard (Path entry) path"
        by (simp_all add: containmentGuard_prefix prefixGuard_prefix)
      with Cons Some e True show ?thesis
        by (simp add: findPrefixOfBody_def Let_def fg)
    next
      case False
      with Cons Some e show ?thesis
        by (simp add: findPrefixOfBody_def Let_def fg)
    qed
  qed
qed

lemma findPrefixOf_eq_prefixTest:
  "findPrefixOf n dpa self path = findPrefixOf_prefixTest n dpa self path"
proof (induction n arbitrary: self path)
  case 0
  show ?case by simp
next
  case (Suc n)
  show ?case
    by (simp only: findPrefixOf.simps findPrefixOf_prefixTest.simps)
       (rule findPrefixOfBody_guards, rule Suc.IH)
qed

text \<open>
  C10. Where \<open>findPrefixOf\<close> evaluates its containment guard, the path looked up is
  longer than the entry's path and starts with it; there the guard is true, and so is
  the prefix test. \<open>findPrefixOf\<close> and the variant with the prefix test in place of
  the guard return the same result and leave the same trie, for every bound, store,
  trie and path.
\<close>

theorem findPrefixOf_guard_is_prefix_test:
  "(length ep < length path \<and> take (length ep) path = ep \<longrightarrow>
      containmentGuard ep path \<and> containmentGuard ep path = prefixGuard ep path)
   \<and> findPrefixOf n dpa self path = findPrefixOf_prefixTest n dpa self path"
  using containmentGuard_prefix [of ep path] prefixGuard_prefix [of ep path]
    findPrefixOf_eq_prefixTest [of n dpa self path]
  by blast

theorem findPrefixOf_guard_is_prefix_test_witness:
  "containmentGuard ''a'' ''ab''
   \<and> findPrefixOf 2 exDPA exTrie ''ab'' = Some ((Some (exLeaf ''b'' ''f00d'', None), 2), exTrie)
   \<and> findPrefixOf_prefixTest 2 exDPA exTrie ''ab'' =
        Some ((Some (exLeaf ''b'' ''f00d'', None), 2), exTrie)"
proof -
  have two: "(2::nat) = Suc (Suc 0)" by simp
  have run: "findPrefixOf 2 exDPA exTrie ''ab'' = Some ((Some (exLeaf ''b'' ''f00d'', None), 2), exTrie)"
    unfolding two
    by (simp add: findPrefixOfBody_def exTrie_def exSub_def exDir_def exLeaf_def ManifestType_def
        containmentGuard_def loadSubTrie_def loadSubTrieBody_def setSlot_def Let_def)
  from findPrefixOf_guard_is_prefix_test [of "''a''" "''ab''" 2 exDPA exTrie] run
  show ?thesis by simp
qed

subsection \<open>Storing a trie that holds an entry without hash and sub-trie\<close>

lemma replicate_update:
  "i < n \<Longrightarrow> (replicate n a)[i := x] = replicate i a @ x # replicate (n - Suc i) a"
proof (induction n arbitrary: i)
  case 0
  then show ?case by simp
next
  case (Suc n)
  then show ?case by (cases i) simp_all
qed

lemma recalcEntries_skip:
  "recalcEntries dpa (replicate k None @ rest) =
     (case recalcEntries dpa rest of (r, rest', dpa') \<Rightarrow> (r, replicate k None @ rest', dpa'))"
  by (induction k) (simp_all split: prod.splits)

lemma recalcEntries_nil_subtrie:
  "Hash entry = '''' \<Longrightarrow>
   recalcEntries dpa (replicate k None @ Some (entry, None) # rest) =
     (Panic, replicate k None @ Some (entry, None) # rest, dpa)"
  by (simp add: recalcEntries_skip)

lemma recalcAndStore_nil_subtrie:
  assumes "Hash entry = ''''" and "i < 257"
  shows "recalcAndStore dpa (ManifestTrie ((replicate 257 None)[i := Some (entry, None)]) None) =
     (Panic, ManifestTrie ((replicate 257 None)[i := Some (entry, None)]) None, dpa)"
  using assms by (simp add: replicate_update recalcEntries_nil_subtrie)

text \<open>
  C8. Storing fails with a nil dereference, and nothing can be re-loaded, on a trie
  that holds an entry with neither hash nor sub-trie. Such a trie arises from a single
  \<open>addEntry\<close> of an entry without hash, as \<open>readManifest\<close> makes it for a manifest
  whose entry has no \<open>hash\<close> field. It also arises from entries that all have their
  hash: the manifest under \<open>''c0de''\<close> refers to a sub-manifest that the store cannot
  deliver; adding the entry \<open>ab\<close> tries to load it, gives up silently and leaves
  the old entry with its hash cleared and no sub-trie, the new entry not added.
\<close>

theorem recalcAndStore_nil_subtrie_panic:
  "addEntry 1 exDPA newTrie (exLeaf ''a'' '''', None) =
     Some (ManifestTrie ((replicate 257 None)[97 := Some (exLeaf ''a'' '''', None)]) None)
   \<and> recalcAndStore exDPA (ManifestTrie ((replicate 257 None)[97 := Some (exLeaf ''a'' '''', None)]) None) =
     (Panic, ManifestTrie ((replicate 257 None)[97 := Some (exLeaf ''a'' '''', None)]) None, exDPA)
   \<and> loadManifest 2 exRootDPA ''c0de'' =
     Some (Inr (ManifestTrie ((replicate 257 None)[97 := Some ((exDir ''a'')\<lparr>Hash := ''beef''\<rparr>, None)]) None))
   \<and> addEntry 2 exRootDPA
       (ManifestTrie ((replicate 257 None)[97 := Some ((exDir ''a'')\<lparr>Hash := ''beef''\<rparr>, None)]) None)
       (exLeaf ''ab'' ''f00d'', None) =
     Some (ManifestTrie ((replicate 257 None)[97 := Some (exDir ''a'', None)]) None)
   \<and> recalcAndStore exRootDPA (ManifestTrie ((replicate 257 None)[97 := Some (exDir ''a'', None)]) None) =
     (Panic, ManifestTrie ((replicate 257 None)[97 := Some (exDir ''a'', None)]) None, exRootDPA)"
proof -
  have one: "(1::nat) = Suc 0" and two: "(2::nat) = Suc (Suc 0)" by simp_all
  have a: "addEntry 1 exDPA newTrie (exLeaf ''a'' '''', None) =
     Some (ManifestTrie ((replicate 257 None)[97 := Some (exLeaf ''a'' '''', None)]) None)"
    unfolding one
    by (simp add: addEntryBody_def newTrie_def setSlot_def exLeaf_def Let_def)
  have b: "recalcAndStore exDPA (ManifestTrie ((replicate 257 None)[97 := Some (exLeaf ''a'' '''', None)]) None) =
     (Panic, ManifestTrie ((replicate 257 None)[97 := Some (exLeaf ''a'' '''', None)]) None, exDPA)"
    by (rule recalcAndStore_nil_subtrie) (simp_all add: exLeaf_def)
  have c: "loadManifest 2 exRootDPA ''c0de'' =
     Some (Inr (ManifestTrie ((replicate 257 None)[97 := Some ((exDir ''a'')\<lparr>Hash := ''beef''\<rparr>, None)]) None))"
    unfolding two
    by (simp add: loadManifest_def readManifestBody_def addEntryBody_def newTrie_def setSlot_def
        exRootDPA_def exDir_def Let_def)
  have d: "addEntry 2 exRootDPA
       (ManifestTrie ((replicate 257 None)[97 := Some ((exDir ''a'')\<lparr>Hash := ''beef''\<rparr>, None)]) None)
       (exLeaf ''ab'' ''f00d'', None) =
     Some (ManifestTrie ((replicate 257 None)[97 := Some (exDir ''a'', None)]) None)"
    unfolding two
    by (simp add: addEntryBody_def loadSubTrieBody_def readManifestBody_def setSlot_def
        exRootDPA_def exDir_def exLeaf_def ManifestType_def Let_def)
  have e: "recalcAndStore exRootDPA (ManifestTrie ((replicate 257 None)[97 := Some (exDir ''a'', None)]) None) =
     (Panic, ManifestTrie ((replicate 257 None)[97 := Some (exDir ''a'', None)]) None, exRootDPA)"
    by (rule recalcAndStore_nil_subtrie) (simp_all add: exDir_def)
  from a b c d e show ?thesis by (intro conjI)
qed

end
